theory Spec2Isabelle
  imports
    Complex_Main
    "HOL-Library.List_Lexorder"
    "HOL-Library.Sublist"
    "HOL-Library.Multiset"
    "HOL-Library.AList"
begin

section \<open>Strings of the release script\<close>

text \<open>
  A JavaScript string is a sequence of UTF-16 code units. A code unit is modelled by its
  number, so that the bullet U+2022 of the report is the one code unit 8226, and the
  default order of \<^verbatim>\<open>Array.prototype.sort\<close> on strings (code unit by code unit, a proper
  prefix first) is the lexicographic order on lists. The theorems below quantify over all
  lists of numbers, which include every string.
\<close>

type_synonym jsstring = "nat list"

definition js :: "string \<Rightarrow> jsstring" where
  "js s = map of_char s"

text \<open>\<^verbatim>\<open>s.split(c)\<close> for a separator of one code unit; the empty string gives \<^verbatim>\<open>['']\<close>.\<close>

fun split_js :: "nat \<Rightarrow> jsstring \<Rightarrow> jsstring list" where
  "split_js c [] = [[]]"
| "split_js c (x # xs) =
     (if x = c then [] # split_js c xs
      else (case split_js c xs of
              [] \<Rightarrow> [[x]]
            | y # ys \<Rightarrow> (x # y) # ys))"

text \<open>
  \<^verbatim>\<open>String.prototype.trim\<close> strips the code units of WhiteSpace and LineTerminator
  from both ends.
\<close>

definition isWhiteSpace :: "nat \<Rightarrow> bool" where
  "isWhiteSpace c \<longleftrightarrow>
     c \<in> {9, 10, 11, 12, 13, 32, 160, 5760, 8192, 8193, 8194, 8195, 8196, 8197, 8198,
          8199, 8200, 8201, 8202, 8232, 8233, 8239, 8287, 12288, 65279}"

definition trim :: "jsstring \<Rightarrow> jsstring" where
  "trim s = rev (dropWhile isWhiteSpace (rev (dropWhile isWhiteSpace s)))"

definition startsWith :: "jsstring \<Rightarrow> jsstring \<Rightarrow> bool" where
  "startsWith s p \<longleftrightarrow> prefix p s"

definition endsWith :: "jsstring \<Rightarrow> jsstring \<Rightarrow> bool" where
  "endsWith s p \<longleftrightarrow> suffix p s"

text \<open>\<^verbatim>\<open>s.includes(p)\<close> on strings: \<open>p\<close> occurs in \<open>s\<close> as a substring.\<close>

fun includes_js :: "jsstring \<Rightarrow> jsstring \<Rightarrow> bool" where
  "includes_js [] p = (p = [])"
| "includes_js (c # cs) p = (prefix p (c # cs) \<or> includes_js cs p)"

text \<open>\<^verbatim>\<open>xs.join(sep)\<close> on an array of strings.\<close>

fun join :: "jsstring \<Rightarrow> jsstring list \<Rightarrow> jsstring" where
  "join sep [] = []"
| "join sep [x] = x"
| "join sep (x # y # ys) = x @ sep @ join sep (y # ys)"

section \<open>Extension list merger\<close>

text \<open>
  \<^verbatim>\<open>mergeExtensions(currentExtensions, newExtensions)\<close>: the current extensions that are
  still recommended, then the recommendations that are new, sorted by the default
  \<^verbatim>\<open>sort()\<close>. On arrays of strings neither \<^verbatim>\<open>filter\<close>, \<^verbatim>\<open>includes\<close> nor \<^verbatim>\<open>sort\<close>
  throws, so the \<^verbatim>\<open>catch\<close> of the source is never entered and the model is a total
  function.
\<close>

definition mergeExtensions :: "jsstring list \<Rightarrow> jsstring list \<Rightarrow> jsstring list" where
  "mergeExtensions currentExtensions newExtensions =
     sort (filter (\<lambda>ext. ext \<in> set newExtensions) currentExtensions @
           filter (\<lambda>ext. ext \<notin> set currentExtensions) newExtensions)"

section \<open>Colours and ANSI codes\<close>

text \<open>
  The two kinds of exception of the scripts: a plain \<^verbatim>\<open>Error\<close> with its message, and
  \<^verbatim>\<open>LoggerErrorHandler\<close> with its message and its verbose content.
\<close>

datatype error = Error jsstring | LoggerErrorHandler jsstring jsstring

fun err_message :: "error \<Rightarrow> jsstring" where
  "err_message (Error m) = m"
| "err_message (LoggerErrorHandler m v) = m"

text \<open>
  \<^verbatim>\<open>colorize(color, text)\<close>: the text between the escape sequence of the colour and
  the reset sequence; a colour outside the seven names throws.
\<close>

definition colorize :: "jsstring \<Rightarrow> jsstring \<Rightarrow> error + jsstring" where
  "colorize color text =
     (if color = js ''red'' then Inr ([27] @ js ''[31m'' @ text @ [27] @ js ''[0m'')
      else if color = js ''green'' then Inr ([27] @ js ''[32m'' @ text @ [27] @ js ''[0m'')
      else if color = js ''yellow'' then Inr ([27] @ js ''[33m'' @ text @ [27] @ js ''[0m'')
      else if color = js ''blue'' then Inr ([27] @ js ''[34m'' @ text @ [27] @ js ''[0m'')
      else if color = js ''magenta'' then Inr ([27] @ js ''[35m'' @ text @ [27] @ js ''[0m'')
      else if color = js ''cyan'' then Inr ([27] @ js ''[36m'' @ text @ [27] @ js ''[0m'')
      else if color = js ''white'' then Inr ([27] @ js ''[37m'' @ text @ [27] @ js ''[0m'')
      else Inl (Error (js ''Invalid color: '' @ color)))"

definition isDigit :: "nat \<Rightarrow> bool" where
  "isDigit c \<longleftrightarrow> 48 \<le> c \<and> c \<le> 57"

text \<open>
  The length of the match of \<^verbatim>\<open>/\x1b\[\d+m|\x1b\[0m/\<close> at the start of a text, if there
  is one. In the first alternative \<^verbatim>\<open>\d+\<close> takes the longest run of digits; giving
  digits back cannot help, since the code unit after a shorter run is a digit and not
  \<^verbatim>\<open>m\<close>. The second alternative is tried when the first fails.
\<close>

definition matchANSI :: "jsstring \<Rightarrow> nat option" where
  "matchANSI text =
     (case text of
        a # b # rest \<Rightarrow>
          if a = 27 \<and> b = 91 then
            (let ds = takeWhile isDigit rest in
             if ds \<noteq> [] \<and> take 1 (dropWhile isDigit rest) = [109] then Some (length ds + 3)
             else if take 2 rest = [48, 109] then Some 4
             else None)
          else None
      | _ \<Rightarrow> None)"

text \<open>
  \<^verbatim>\<open>removeANSI(text)\<close>, the global replacement of the matches by the empty string:
  from left to right, a match is dropped and the scan goes on behind it, any other code
  unit is kept.
\<close>

fun removeANSI :: "jsstring \<Rightarrow> jsstring" where
  "removeANSI [] = []"
| "removeANSI (c # cs) =
     (case matchANSI (c # cs) of
        None \<Rightarrow> c # removeANSI cs
      | Some n \<Rightarrow> removeANSI (drop (n - 1) cs))"

text \<open>
  A text holds an ANSI code when the pattern of \<open>removeANSI\<close> matches at one of its
  positions.
\<close>

fun hasANSI :: "jsstring \<Rightarrow> bool" where
  "hasANSI [] = False"
| "hasANSI (c # cs) = (matchANSI (c # cs) \<noteq> None \<or> hasANSI cs)"

section \<open>Change-classifying diff\<close>

text \<open>
  One step of the loop over the sorted entries: \<^verbatim>\<open>const [name, action] = ext.split('|')\<close>
  takes the first two parts, and the \<^verbatim>\<open>switch\<close> appends a line for the three known
  actions and nothing for any other.
\<close>

definition entryLine :: "jsstring \<Rightarrow> error + jsstring" where
  "entryLine ext =
     (case split_js 124 ext of
        name # action # _ \<Rightarrow>
          if action = js ''keep'' then
            colorize (js ''white'') (js ''  '' @ [8226] @ js '' '' @ name @ [10])
          else if action = js ''remove'' then
            colorize (js ''red'') (js ''  - '' @ name @ [10])
          else if action = js ''add'' then
            colorize (js ''green'') (js ''  + '' @ name @ [10])
          else Inr []
      | _ \<Rightarrow> Inr [])"

fun appendEntries :: "jsstring \<Rightarrow> jsstring list \<Rightarrow> error + jsstring" where
  "appendEntries message [] = Inr message"
| "appendEntries message (ext # exts) =
     (case entryLine ext of
        Inl e \<Rightarrow> Inl e
      | Inr line \<Rightarrow> appendEntries (message @ line) exts)"

text \<open>The entries pushed by the two loops: every current extension, then the new ones.\<close>

definition taggedList :: "jsstring list \<Rightarrow> jsstring list \<Rightarrow> jsstring list" where
  "taggedList currentExtensions updatedExtensions =
     map (\<lambda>ext. if ext \<in> set updatedExtensions then ext @ js ''|keep''
                else ext @ js ''|remove'') currentExtensions @
     map (\<lambda>ext. ext @ js ''|add'')
       (filter (\<lambda>ext. ext \<notin> set currentExtensions) updatedExtensions)"

definition reportHeader :: jsstring where
  "reportHeader =
     js ''feat(extension): Updates to v{{version}}'' @ [10, 10] @
     js ''New extension list:'' @ [10]"

text \<open>
  \<^verbatim>\<open>getCommitMessageByExtensionListChanges(currentExtensions, updatedExtensions)\<close>.
  An error thrown inside is wrapped by the \<^verbatim>\<open>catch\<close>.
\<close>

definition getCommitMessageByExtensionListChanges ::
    "jsstring list \<Rightarrow> jsstring list \<Rightarrow> error + jsstring" where
  "getCommitMessageByExtensionListChanges currentExtensions updatedExtensions =
     (let list = taggedList currentExtensions updatedExtensions in
      if length (filter (\<lambda>ext. \<not> endsWith ext (js ''|keep'')) list) = 0 then Inr []
      else
        (case appendEntries reportHeader (sort list) of
           Inl err \<Rightarrow>
             Inl (LoggerErrorHandler (js ''Failed to get commit message'') (err_message err))
         | Inr message \<Rightarrow> Inr message))"

section \<open>Version bump\<close>

text \<open>
  \<^verbatim>\<open>Number(s)\<close> is modelled on the strings of decimal digits that denote a safe
  integer (at most \<open>2^53 - 1\<close>), where it is the integer denoted and where adding one
  is exact. \<open>None\<close> stands for every other string (signs, exponents, prefixes, blanks,
  the empty string, larger numbers), on which JavaScript computes with floating point
  numbers or \<^verbatim>\<open>NaN\<close>: those results are outside the model.
\<close>

definition decimalValue :: "jsstring \<Rightarrow> nat" where
  "decimalValue s = foldl (\<lambda>n c. 10 * n + (c - 48)) 0 s"

definition Number_js :: "jsstring \<Rightarrow> nat option" where
  "Number_js s =
     (if s \<noteq> [] \<and> list_all isDigit s \<and> decimalValue s \<le> 9007199254740991
      then Some (decimalValue s) else None)"

text \<open>The decimal text of a natural number, as a template literal prints it.\<close>

fun toString :: "nat \<Rightarrow> jsstring" where
  "toString n = (if n < 10 then [48 + n] else toString (n div 10) @ [48 + n mod 10])"

text \<open>
  The destructuring \<^verbatim>\<open>[major, minor, patch] = version.split('.').map(Number)\<close>: a
  component that is missing is \<^verbatim>\<open>undefined\<close>, whose arithmetic is outside the model
  as well.
\<close>

definition component :: "nat option list \<Rightarrow> nat \<Rightarrow> nat option" where
  "component parts i = (if i < length parts then parts ! i else None)"

text \<open>
  \<^verbatim>\<open>increaseVersion(version, type)\<close>. The result is \<open>None\<close> where a component that the
  chosen branch prints is outside the modelled numbers.
\<close>

definition increaseVersion :: "jsstring \<Rightarrow> jsstring \<Rightarrow> jsstring option" where
  "increaseVersion version type =
     (let parts = map Number_js (split_js 46 version);
          major = component parts 0;
          minor = component parts 1;
          patch = component parts 2
      in if type = js ''major'' then
           (case major of
              Some ma \<Rightarrow> Some (toString (ma + 1) @ js ''.0.0'')
            | None \<Rightarrow> None)
         else if type = js ''minor'' then
           (case (major, minor) of
              (Some ma, Some mi) \<Rightarrow> Some (toString ma @ js ''.'' @ toString (mi + 1) @ js ''.0'')
            | _ \<Rightarrow> None)
         else if type = js ''patch'' then
           (case (major, minor, patch) of
              (Some ma, Some mi, Some pa) \<Rightarrow>
                Some (toString ma @ js ''.'' @ toString mi @ js ''.'' @ toString (pa + 1))
            | _ \<Rightarrow> None)
         else Some version)"

section \<open>The data of a run\<close>

text \<open>
  A parsed JSON value. An object is the list of its properties in their order; a number
  is never computed with.
\<close>

datatype json =
    JNull
  | JBool bool
  | JNumber real
  | JString jsstring
  | JArray "json list"
  | JObject "(jsstring \<times> json) list"

text \<open>
  The text \<^verbatim>\<open>JSON.stringify(value, null, indent)\<close>, kept symbolic: the value and the
  indentation it was printed with. Two texts are equal when value and indentation are.
\<close>

datatype filetext = JSON_stringify json nat

record ExtensionPackData =
  extensionFiles :: "jsstring list"
  packageJsonPath :: jsstring
  packageJson :: "(jsstring \<times> json) list"
  currentVersion :: jsstring
  updatedVersion :: jsstring
  currentExtensions :: "jsstring list"
  updatedExtensions :: "jsstring list"
  message :: jsstring

text \<open>
  \<^verbatim>\<open>bumpVersion(data)\<close> reads the lines of the message without its ANSI codes and
  stores the increased version in the data; \<open>None\<close> as for \<open>increaseVersion\<close>, which
  does not throw on a string.
\<close>

definition versionType :: "jsstring \<Rightarrow> jsstring" where
  "versionType msg =
     (let lines = split_js 10 (removeANSI msg) in
      if list_ex (\<lambda>l. startsWith (trim l) (js ''-'')) lines then js ''major''
      else if list_ex (\<lambda>l. startsWith (trim l) (js ''+'')) lines then js ''minor''
      else js ''patch'')"

definition bumpVersion :: "ExtensionPackData \<Rightarrow> ExtensionPackData option" where
  "bumpVersion data =
     (case increaseVersion (currentVersion data) (versionType (message data)) of
        Some v \<Rightarrow> Some (data\<lparr>updatedVersion := v\<rparr>)
      | None \<Rightarrow> None)"

text \<open>
  \<^verbatim>\<open>getCommitMessageByStagedFiles(stagedFiles, title)\<close>; the last step escapes every
  double quote.
\<close>

definition escapeQuotes :: "jsstring \<Rightarrow> jsstring" where
  "escapeQuotes s = concat (map (\<lambda>c. if c = 34 then [92, 34] else [c]) s)"

definition getCommitMessageByStagedFiles :: "jsstring list \<Rightarrow> jsstring \<Rightarrow> jsstring" where
  "getCommitMessageByStagedFiles stagedFiles title =
     escapeQuotes
       (if length stagedFiles > 0
        then title @ [10, 10] @ js ''- '' @ join ([10] @ js ''- '') stagedFiles @ [10]
        else [])"

section \<open>The world of a run\<close>

text \<open>
  A computation of the script ends by returning a value, by throwing, or by
  \<^verbatim>\<open>process.exit(code)\<close>, which ends the process at once: no handler and no later
  statement runs. Its effects stay in the world in all three cases.
\<close>

datatype 'a outcome = Return 'a | Throw error | Exit nat

text \<open>
  The four commands that the script passes to \<^verbatim>\<open>execSync\<close>: \<^verbatim>\<open>git add\<close> with its
  path arguments, \<^verbatim>\<open>git diff --name-only --cached .\<close>, \<^verbatim>\<open>git restore --staged .\<close> and
  \<^verbatim>\<open>git commit -m\<close> with its message.
\<close>

datatype gitcmd = GitAdd "jsstring list" | GitDiffCached | GitRestoreStaged | GitCommit jsstring

text \<open>
  What the script acts on. The index and the working tree of the repository are the
  lists of staged paths and of changed paths that are not staged; \<open>commits\<close> holds the
  messages of the commits made. \<open>gitError\<close>, \<open>logError\<close> and \<open>writeError\<close> say which
  git command, whether appending to the log file, and which file write fails, and
  with which message. \<open>answers\<close> are the lines the user will type, \<open>prompts\<close> counts
  the questions asked so far. \<open>written\<close> lists the files written, in order.
\<close>

record world =
  staged :: "jsstring list"
  unstaged :: "jsstring list"
  commits :: "jsstring list"
  gitError :: "gitcmd \<Rightarrow> jsstring option"
  answers :: "nat \<Rightarrow> jsstring"
  prompts :: nat
  console :: "jsstring list"
  logFile :: "jsstring list"
  logError :: "jsstring option"
  verbose :: bool
  written :: "(jsstring \<times> filetext) list"
  writeError :: "jsstring \<Rightarrow> jsstring option"

type_synonym 'a io = "world \<Rightarrow> 'a outcome \<times> world"

definition ret :: "'a \<Rightarrow> 'a io" where
  "ret x w = (Return x, w)"

definition throw :: "error \<Rightarrow> 'a io" where
  "throw e w = (Throw e, w)"

definition exit :: "nat \<Rightarrow> 'a io" where
  "exit code w = (Exit code, w)"

text \<open>Sequencing: the second statement runs only when the first returns.\<close>

definition andThen :: "'a io \<Rightarrow> ('a \<Rightarrow> 'b io) \<Rightarrow> 'b io" where
  "andThen m f w =
     (case m w of
        (Return x, w') \<Rightarrow> f x w'
      | (Throw e, w') \<Rightarrow> (Throw e, w')
      | (Exit code, w') \<Rightarrow> (Exit code, w'))"

text \<open>\<^verbatim>\<open>try { m } catch (err) { h }\<close>: only a throw reaches the handler.\<close>

definition tryCatch :: "'a io \<Rightarrow> (error \<Rightarrow> 'a io) \<Rightarrow> 'a io" where
  "tryCatch m h w =
     (case m w of
        (Throw e, w') \<Rightarrow> h e w'
      | (Return x, w') \<Rightarrow> (Return x, w')
      | (Exit code, w') \<Rightarrow> (Exit code, w'))"

definition lift :: "error + 'a \<Rightarrow> 'a io" where
  "lift r = (case r of Inl e \<Rightarrow> throw e | Inr x \<Rightarrow> ret x)"

section \<open>Logger and confirmation\<close>

definition console_log :: "jsstring \<Rightarrow> unit io" where
  "console_log line w = (Return (), w\<lparr>console := console w @ [line]\<rparr>)"

text \<open>\<^verbatim>\<open>fs.appendFileSync(Logger.__LOG_PATH, entry)\<close>.\<close>

definition appendLog :: "jsstring \<Rightarrow> unit io" where
  "appendLog entry w =
     (case logError w of
        Some m \<Rightarrow> (Throw (Error m), w)
      | None \<Rightarrow> (Return (), w\<lparr>logFile := logFile w @ [entry]\<rparr>))"

datatype LogType = Info | Success | Warning | Question | ErrorLog

definition logLabel :: "LogType \<Rightarrow> error + jsstring" where
  "logLabel type =
     (case type of
        Info \<Rightarrow> colorize (js ''cyan'') (js ''[INFO] '')
      | Success \<Rightarrow> colorize (js ''green'') (js ''[SUCCESS] '')
      | Warning \<Rightarrow> colorize (js ''yellow'') (js ''[WARNING] '')
      | Question \<Rightarrow> colorize (js ''magenta'') (js ''[QUESTION] '')
      | ErrorLog \<Rightarrow> colorize (js ''red'') (js ''[ERROR] ''))"

text \<open>
  \<^verbatim>\<open>Logger.__log\<close> for a call without placeholder arguments, as all calls of the release
  script are: the labelled message goes to the console unless it is a question, a
  non-empty verbose content is added to the entry (and shown in verbose mode), and the
  entry is appended to the log file without its ANSI codes. Any error is thrown again
  as a plain \<^verbatim>\<open>Error\<close>.
\<close>

definition Logger_log :: "LogType \<Rightarrow> jsstring \<Rightarrow> jsstring option \<Rightarrow> unit io" where
  "Logger_log type msg verboseContent =
     tryCatch
       (andThen (lift (colorize (js ''white'') msg)) (\<lambda>white.
        andThen (lift (logLabel type)) (\<lambda>label.
        andThen (if type \<noteq> Question then console_log (label @ white) else ret ()) (\<lambda>_.
        andThen
          (case verboseContent of
             None \<Rightarrow> ret (label @ white)
           | Some v \<Rightarrow>
               if v \<noteq> [] then
                 andThen (lift (colorize (js ''white'') v)) (\<lambda>whiteVerbose.
                 andThen (\<lambda>w. (if verbose w then console_log v else ret ()) w) (\<lambda>_.
                 ret (label @ white @ [10] @ whiteVerbose)))
               else ret (label @ white)) (\<lambda>entry.
        appendLog (removeANSI entry @ [10, 10]))))))
       (\<lambda>err.
          andThen (lift (colorize (js ''red'') (js ''[ERROR]''))) (\<lambda>tag.
          throw (Error (tag @ js '' Failed to log message:'' @ [10] @
                        err_message err @ [10, 10]))))"

definition info :: "jsstring \<Rightarrow> jsstring option \<Rightarrow> unit io" where
  "info msg verboseContent = Logger_log Info msg verboseContent"

definition question :: "jsstring \<Rightarrow> unit io" where
  "question msg = Logger_log Question msg None"

text \<open>
  The prompt of the terminal: it shows the question and returns the next line typed.
\<close>

definition prompt :: "jsstring \<Rightarrow> jsstring io" where
  "prompt ask w =
     (Return (answers w (prompts w)),
      w\<lparr>prompts := Suc (prompts w), console := console w @ [ask]\<rparr>)"

text \<open>
  \<^verbatim>\<open>answer.charAt(0).toLowerCase() === 'y'\<close>: the answer starts with \<^verbatim>\<open>y\<close> or \<^verbatim>\<open>Y\<close>,
  the only code units whose lower case is \<^verbatim>\<open>y\<close>.
\<close>

definition saysYes :: "jsstring \<Rightarrow> bool" where
  "saysYes answer = (case answer of [] \<Rightarrow> False | c # _ \<Rightarrow> c = 121 \<or> c = 89)"

text \<open>\<^verbatim>\<open>confirm(message, question)\<close>.\<close>

definition confirm :: "jsstring \<Rightarrow> bool io" where
  "confirm msg =
     andThen (lift (colorize (js ''green'') (js ''y''))) (\<lambda>yes.
     andThen (lift (colorize (js ''red'') (js ''n''))) (\<lambda>no.
     andThen (lift (colorize (js ''magenta'') (js ''[QUESTION] ''))) (\<lambda>label.
     andThen (prompt (label @ msg @ js '' ('' @ yes @ js ''/'' @ no @ js ''): '')) (\<lambda>answer.
     andThen (question ((msg @ js '' ('' @ yes @ js ''/'' @ no @ js ''): '') @ answer)) (\<lambda>_.
     ret (saysYes answer))))))"

section \<open>Git commands\<close>

definition commandLine :: "gitcmd \<Rightarrow> jsstring" where
  "commandLine cmd =
     (case cmd of
        GitAdd paths \<Rightarrow> js ''git add '' @ join (js '' '') paths
      | GitDiffCached \<Rightarrow> js ''git diff --name-only --cached .''
      | GitRestoreStaged \<Rightarrow> js ''git restore --staged .''
      | GitCommit msg \<Rightarrow> js ''git commit -m '' @ [34] @ msg @ [34])"

text \<open>
  The effect and the output of a command that succeeds. \<^verbatim>\<open>git add\<close> stages the changed
  paths that are among its arguments, all of them for the argument \<^verbatim>\<open>.\<close>; the cached
  diff prints one staged path per line; \<^verbatim>\<open>git restore --staged .\<close> empties the index and
  leaves the changes in the working tree; \<^verbatim>\<open>git commit\<close> records the message and
  empties the index. The script reads the output of the diff only.
\<close>

definition git :: "gitcmd \<Rightarrow> world \<Rightarrow> jsstring \<times> world" where
  "git cmd w =
     (case cmd of
        GitAdd paths \<Rightarrow>
          ([], w\<lparr>staged := staged w @
                   filter (\<lambda>f. (js ''.'' \<in> set paths \<or> f \<in> set paths) \<and> f \<notin> set (staged w))
                     (unstaged w),
                 unstaged := filter (\<lambda>f. \<not> (js ''.'' \<in> set paths \<or> f \<in> set paths))
                     (unstaged w)\<rparr>)
      | GitDiffCached \<Rightarrow> (concat (map (\<lambda>f. f @ [10]) (staged w)), w)
      | GitRestoreStaged \<Rightarrow>
          ([], w\<lparr>unstaged := unstaged w @ filter (\<lambda>f. f \<notin> set (unstaged w)) (staged w),
                 staged := []\<rparr>)
      | GitCommit msg \<Rightarrow> ([], w\<lparr>commits := commits w @ [msg], staged := []\<rparr>))"

text \<open>
  A command fails when the world says so, and a commit fails when nothing is staged.
\<close>

definition gitFailure :: "gitcmd \<Rightarrow> world \<Rightarrow> jsstring option" where
  "gitFailure cmd w =
     (case gitError w cmd of
        Some m \<Rightarrow> Some m
      | None \<Rightarrow>
          (case cmd of
             GitCommit msg \<Rightarrow> if staged w = [] then Some (js ''nothing to commit'') else None
           | _ \<Rightarrow> None))"

text \<open>\<^verbatim>\<open>execGitCommand(command)\<close>: the output of the command, or the wrapped error.\<close>

definition execGitCommand :: "gitcmd \<Rightarrow> jsstring io" where
  "execGitCommand cmd w =
     (case gitFailure cmd w of
        Some m \<Rightarrow>
          (Throw (LoggerErrorHandler (js ''Git command failed'')
                    (js ''Command: '' @ commandLine cmd @ [10] @ js ''Error: '' @ m)), w)
      | None \<Rightarrow> (case git cmd w of (out, w') \<Rightarrow> (Return out, w')))"

definition getStagedFiles :: "jsstring list io" where
  "getStagedFiles =
     andThen (execGitCommand GitDiffCached) (\<lambda>out.
     ret (filter (\<lambda>file. trim file \<noteq> []) (split_js 10 out)))"

section \<open>Stages of the release\<close>

text \<open>
  \<^verbatim>\<open>addAdditionalInfoToMessage(data)\<close>; the data is changed in place in the source and
  returned here.
\<close>

definition addAdditionalInfoToMessage :: "ExtensionPackData \<Rightarrow> ExtensionPackData io" where
  "addAdditionalInfoToMessage data =
     andThen (execGitCommand (GitAdd (extensionFiles data))) (\<lambda>_.
     andThen getStagedFiles (\<lambda>stagedFiles.
     let hasMessage = (trim (message data) \<noteq> []);
         data' =
           (if length (filter (\<lambda>f. if hasMessage then \<not> includes_js f (js ''package.json'')
                                     else True) stagedFiles) > 0
            then
              data\<lparr>message :=
                (if hasMessage then message data @ [10, 10]
                 else js ''feat(extension): Updates to v{{version}}'' @ [10, 10]) @
                getCommitMessageByStagedFiles stagedFiles (js ''Extension files updated:'')\<rparr>
            else data)
     in andThen (execGitCommand GitRestoreStaged) (\<lambda>_. ret data')))"

text \<open>
  \<^verbatim>\<open>hasChangesOnExtensionList(data)\<close> sorts both lists in place and compares their JSON
  texts; it cannot throw on arrays of strings. In a run the current list is the array
  held by the manifest under \<^verbatim>\<open>extensionPack\<close>, so the source sorts that property as
  well; the model leaves the manifest as it is, which no later step can tell apart:
  the manifest is either not written or written with the property assigned anew.
\<close>

definition hasChangesOnExtensionList :: "ExtensionPackData \<Rightarrow> bool \<times> ExtensionPackData" where
  "hasChangesOnExtensionList data =
     (let data' = data\<lparr>currentExtensions := sort (currentExtensions data),
                       updatedExtensions := sort (updatedExtensions data)\<rparr>
      in (JSON_stringify (JArray (map JString (currentExtensions data'))) 0 \<noteq>
          JSON_stringify (JArray (map JString (updatedExtensions data'))) 0, data'))"

text \<open>\<^verbatim>\<open>fs.writeFileSync(path, content)\<close>.\<close>

definition writeFileSync :: "jsstring \<Rightarrow> filetext \<Rightarrow> unit io" where
  "writeFileSync path content w =
     (case writeError w path of
        Some m \<Rightarrow> (Throw (Error m), w)
      | None \<Rightarrow> (Return (), w\<lparr>written := written w @ [(path, content)]\<rparr>))"

text \<open>
  \<^verbatim>\<open>updatePackageJson(data)\<close>. Assigning to a property of the manifest replaces its
  value where the property exists and adds the property at the end otherwise.
\<close>

definition updatePackageJson :: "ExtensionPackData \<Rightarrow> ExtensionPackData io" where
  "updatePackageJson data =
     tryCatch
       (let data' = data\<lparr>packageJson :=
              AList.update (js ''extensionPack'') (JArray (map JString (updatedExtensions data)))
                (AList.update (js ''version'') (JString (updatedVersion data))
                   (packageJson data))\<rparr>
        in andThen (writeFileSync (packageJsonPath data')
                      (JSON_stringify (JObject (packageJson data')) 4)) (\<lambda>_.
           ret data'))
       (\<lambda>err. throw (LoggerErrorHandler (js ''Error updating package.json'') (err_message err)))"

text \<open>\<^verbatim>\<open>updateExtensionPack(data)\<close>.\<close>

definition updateExtensionPack :: "ExtensionPackData \<Rightarrow> ExtensionPackData io" where
  "updateExtensionPack data =
     tryCatch
       (case hasChangesOnExtensionList data of
          (changes, data') \<Rightarrow>
            if \<not> changes \<and> trim (message data') = [] then
              andThen (info (js ''No changes needed in `package.json` file.'') None) (\<lambda>_.
              ret data')
            else updatePackageJson data')
       (\<lambda>err. throw (LoggerErrorHandler (js ''Failed to update extension pack'')
                        (err_message err)))"

text \<open>\<^verbatim>\<open>commitProjectFiles(projectFiles)\<close>.\<close>

definition commitProjectFiles :: "jsstring list \<Rightarrow> bool io" where
  "commitProjectFiles projectFiles =
     tryCatch
       (andThen (execGitCommand (GitAdd projectFiles)) (\<lambda>_.
        andThen getStagedFiles (\<lambda>stagedFiles.
        let msg = getCommitMessageByStagedFiles stagedFiles (js ''chore: Updated project files'')
        in if trim msg = [] then
             andThen (info (js ''No changes to commit for project files.'') None) (\<lambda>_.
             ret False)
           else
             andThen (info (js ''The following changes will be applied:'' @ [10]) (Some msg)) (\<lambda>_.
             andThen (console_log msg) (\<lambda>_.
             andThen (confirm (js ''Do you want to apply the changes?'')) (\<lambda>confirmed.
             andThen
               (if \<not> confirmed then
                  andThen (execGitCommand GitRestoreStaged) (\<lambda>_.
                  andThen (info (js ''Aborted! No changes applied.'')
                             (Some (js ''User aborted the operation `commitProjectFiles`.''))) (\<lambda>_.
                  exit 0))
                else ret ()) (\<lambda>_.
             andThen (execGitCommand (GitCommit msg)) (\<lambda>_.
             ret True))))))))
       (\<lambda>err.
          andThen (execGitCommand GitRestoreStaged) (\<lambda>_.
          throw (LoggerErrorHandler (js ''Failed to commit project files'') (err_message err))))"

text \<open>\<^verbatim>\<open>commitExtensionFiles(data)\<close>.\<close>

definition commitExtensionFiles :: "ExtensionPackData \<Rightarrow> bool io" where
  "commitExtensionFiles data =
     tryCatch
       (andThen (execGitCommand (GitAdd [js ''.''])) (\<lambda>_.
        if trim (message data) = [] then
          andThen (info (js ''No changes to commit for extension files.'') None) (\<lambda>_.
          ret False)
        else
          andThen (info (js ''The following changes will be applied:'' @ [10])
                     (Some (message data))) (\<lambda>_.
          andThen (console_log (message data)) (\<lambda>_.
          andThen (confirm (js ''Do you want to apply the changes?'')) (\<lambda>confirmed.
          andThen
            (if \<not> confirmed then
               andThen (execGitCommand GitRestoreStaged) (\<lambda>_.
               andThen (info (js ''Aborted! No changes applied.'')
                          (Some (js ''User aborted the operation `commitExtensionFiles`.''))) (\<lambda>_.
               exit 0))
             else ret ()) (\<lambda>_.
          andThen (execGitCommand (GitCommit (message data))) (\<lambda>_.
          ret True)))))))
       (\<lambda>err.
          andThen (execGitCommand GitRestoreStaged) (\<lambda>_.
          throw (LoggerErrorHandler (js ''Failed to commit changes'') (err_message err))))"

section \<open>What a log call leaves behind\<close>

text \<open>The entry of a log call, before its ANSI codes are removed.\<close>

definition logEntry :: "LogType \<Rightarrow> jsstring \<Rightarrow> jsstring option \<Rightarrow> jsstring" where
  "logEntry type msg v =
     (case logLabel type of Inr label \<Rightarrow>
       (case colorize (js ''white'') msg of Inr white \<Rightarrow>
         (case v of None \<Rightarrow> label @ white
          | Some t \<Rightarrow> if t = [] then label @ white
              else (case colorize (js ''white'') t of Inr wt \<Rightarrow> label @ white @ [10] @ wt))))"

text \<open>The lines that a log call shows on the console.\<close>

definition logShown :: "LogType \<Rightarrow> jsstring \<Rightarrow> jsstring option \<Rightarrow> bool \<Rightarrow> jsstring list" where
  "logShown type msg v verb =
     (if type \<noteq> Question then [logEntry type msg None] else []) @
     (case v of None \<Rightarrow> [] | Some t \<Rightarrow> if t \<noteq> [] \<and> verb then [t] else [])"

section \<open>Staged paths and example data\<close>

text \<open>
  The list that \<open>getStagedFiles\<close> returns when the cached diff succeeds: the lines of
  its output that are not blank.
\<close>

definition stagedPaths :: "world \<Rightarrow> jsstring list" where
  "stagedPaths w =
     filter (\<lambda>file. trim file \<noteq> []) (split_js 10 (concat (map (\<lambda>f. f @ [10]) (staged w))))"

text \<open>
  A world in which nothing fails, no file is changed and the user answers n; and the
  data of a run in which the recommendations equal the current extensions.
\<close>

definition quietWorld :: world where
  "quietWorld =
     \<lparr>staged = [], unstaged = [], commits = [], gitError = (\<lambda>_. None),
      answers = (\<lambda>_. js ''n''), prompts = 0, console = [], logFile = [], logError = None,
      verbose = False, written = [], writeError = (\<lambda>_. None)\<rparr>"

definition unchangedPack :: ExtensionPackData where
  "unchangedPack =
     \<lparr>extensionFiles = [js ''.vscode/extensions.json'', js ''package.json'',
                         js ''assets/icon_128.png'', js ''README.md''],
      packageJsonPath = js ''package.json'',
      packageJson = [(js ''name'', JString (js ''dev-essentials-pack'')),
                     (js ''version'', JString (js ''1.0.0'')),
                     (js ''extensionPack'', JArray [JString (js ''a.b'')]),
                     (js ''license'', JString (js ''MIT''))],
      currentVersion = js ''1.0.0'', updatedVersion = js ''1.0.1'',
      currentExtensions = [js ''a.b''], updatedExtensions = [js ''a.b''], message = []\<rparr>"

section \<open>The report, entry by entry\<close>

text \<open>
  The classification of an identifier, the key under which its entry is sorted, and the
  line that the report holds for it: a neutral bullet in white for a kept identifier,
  a minus in red for a removed one, a plus in green for an added one.
\<close>

definition action :: "jsstring list \<Rightarrow> jsstring list \<Rightarrow> jsstring \<Rightarrow> jsstring" where
  "action current updated name =
     (if name \<in> set current
      then (if name \<in> set updated then js ''keep'' else js ''remove'')
      else js ''add'')"

definition entryKey :: "jsstring list \<Rightarrow> jsstring list \<Rightarrow> jsstring \<Rightarrow> jsstring" where
  "entryKey current updated name = name @ js ''|'' @ action current updated name"

definition marker :: "jsstring list \<Rightarrow> jsstring list \<Rightarrow> jsstring \<Rightarrow> nat" where
  "marker current updated name =
     (if name \<in> set current then (if name \<in> set updated then 8226 else 45) else 43)"

definition colourDigit :: "jsstring list \<Rightarrow> jsstring list \<Rightarrow> jsstring \<Rightarrow> nat" where
  "colourDigit current updated name =
     (if name \<in> set current then (if name \<in> set updated then 55 else 49) else 50)"

definition reportLine :: "jsstring list \<Rightarrow> jsstring list \<Rightarrow> jsstring \<Rightarrow> jsstring" where
  "reportLine current updated name =
     [27, 91, 51, colourDigit current updated name, 109] @
     js ''  '' @ [marker current updated name] @ js '' '' @ name @ [10] @
     [27, 91, 48, 109]"

text \<open>The line as \<open>bumpVersion\<close> reads it: without colour and without the line feed.\<close>

definition plainLine :: "jsstring list \<Rightarrow> jsstring list \<Rightarrow> jsstring \<Rightarrow> jsstring" where
  "plainLine current updated name =
     js ''  '' @ [marker current updated name] @ js '' '' @ removeANSI name"

text \<open>The identifiers that get an entry, in the order of the two loops.\<close>

definition entryNames :: "jsstring list \<Rightarrow> jsstring list \<Rightarrow> jsstring list" where
  "entryNames current updated = current @ filter (\<lambda>name. name \<notin> set current) updated"

text \<open>
  The report as the specification words it, a sorted list of marker-prefixed lines in
  the templated body: the lines of the identifiers in their sorted order.
\<close>

definition reportSortedByName :: "jsstring list \<Rightarrow> jsstring list \<Rightarrow> jsstring" where
  "reportSortedByName current updated =
     reportHeader @
     concat (map (reportLine current updated) (sort (entryNames current updated)))"

section \<open>Properties of the merger\<close>

lemma set_mergeExtensions:
  "set (mergeExtensions current recommended) = set recommended"
  by (auto simp: mergeExtensions_def)

lemma mset_merge_parts:
  assumes "distinct current" and "distinct recommended"
  shows "mset (filter (\<lambda>ext. ext \<in> set recommended) current @
               filter (\<lambda>ext. ext \<notin> set current) recommended) = mset recommended"
proof -
  let ?l = "filter (\<lambda>ext. ext \<in> set recommended) current @
            filter (\<lambda>ext. ext \<notin> set current) recommended"
  have "distinct ?l"
    using assms by auto
  moreover have "set ?l = set recommended"
    by auto
  ultimately show ?thesis
    using assms(2) set_eq_iff_mset_eq_distinct by blast
qed

text \<open>
  C1. The merged list is sorted in the order of \<^verbatim>\<open>sort()\<close>; its elements are exactly
  those of (current \<inter> recommended) \<union> (recommended \<setminus> current); it holds no element of
  current \<setminus> recommended; two empty inputs give the empty list; and duplicate-free inputs
  give a duplicate-free result.
\<close>

theorem mergeExtensions_sorted_exact:
  "sorted (mergeExtensions current recommended) \<and>
   set (mergeExtensions current recommended) =
     (set current \<inter> set recommended) \<union> (set recommended - set current) \<and>
   set (mergeExtensions current recommended) \<inter> (set current - set recommended) = {} \<and>
   mergeExtensions [] [] = [] \<and>
   (distinct current \<and> distinct recommended \<longrightarrow>
      distinct (mergeExtensions current recommended))"
proof -
  have "sorted (mergeExtensions current recommended)"
    by (simp add: mergeExtensions_def)
  moreover have "set (mergeExtensions current recommended) =
      (set current \<inter> set recommended) \<union> (set recommended - set current)"
    by (auto simp: mergeExtensions_def)
  moreover have "set (mergeExtensions current recommended) \<inter>
      (set current - set recommended) = {}"
    by (auto simp: mergeExtensions_def)
  moreover have "mergeExtensions [] [] = []"
    by (simp add: mergeExtensions_def)
  moreover have "distinct current \<and> distinct recommended \<longrightarrow>
      distinct (mergeExtensions current recommended)"
    by (auto simp: mergeExtensions_def)
  ultimately show ?thesis
    by blast
qed

theorem mergeExtensions_sorted_exact_witness:
  "sorted (mergeExtensions [js ''c.d'', js ''a.b''] [js ''e.f'', js ''c.d'']) \<and>
   set (mergeExtensions [js ''c.d'', js ''a.b''] [js ''e.f'', js ''c.d'']) =
     (set [js ''c.d'', js ''a.b''] \<inter> set [js ''e.f'', js ''c.d'']) \<union>
     (set [js ''e.f'', js ''c.d''] - set [js ''c.d'', js ''a.b'']) \<and>
   distinct [js ''c.d'', js ''a.b''] \<and> distinct [js ''e.f'', js ''c.d''] \<and>
   distinct (mergeExtensions [js ''c.d'', js ''a.b''] [js ''e.f'', js ''c.d'']) \<and>
   mergeExtensions [js ''c.d'', js ''a.b''] [js ''e.f'', js ''c.d''] =
     [js ''c.d'', js ''e.f'']"
proof -
  have d: "distinct [js ''c.d'', js ''a.b''] \<and> distinct [js ''e.f'', js ''c.d'']"
    by (simp add: js_def)
  have v: "mergeExtensions [js ''c.d'', js ''a.b''] [js ''e.f'', js ''c.d''] =
      [js ''c.d'', js ''e.f'']"
    by (simp add: mergeExtensions_def js_def)
  show ?thesis
    using mergeExtensions_sorted_exact
      [of "[js ''c.d'', js ''a.b'']" "[js ''e.f'', js ''c.d'']"] d v
    by blast
qed

text \<open>
  C9. On duplicate-free inputs the merged list is the sorted list of recommendations:
  the current list contributes no element, and the members of the result are those of
  the recommendations.
\<close>

theorem mergeExtensions_is_sorted_recommended:
  assumes "distinct current" and "distinct recommended"
  shows "mergeExtensions current recommended = sort recommended \<and>
         set (mergeExtensions current recommended) = set recommended"
proof -
  have "mergeExtensions current recommended = sort recommended"
    unfolding mergeExtensions_def
  proof (rule properties_for_sort [symmetric])
    show "mset (sort (filter (\<lambda>ext. ext \<in> set recommended) current @
                      filter (\<lambda>ext. ext \<notin> set current) recommended)) = mset recommended"
      using mset_merge_parts [OF assms] by (simp only: mset_sort)
    show "sorted (sort (filter (\<lambda>ext. ext \<in> set recommended) current @
                        filter (\<lambda>ext. ext \<notin> set current) recommended))"
      by simp
  qed
  then show ?thesis
    by simp
qed

theorem mergeExtensions_is_sorted_recommended_witness:
  "distinct [js ''c.d'', js ''a.b''] \<and> distinct [js ''e.f'', js ''c.d''] \<and>
   mergeExtensions [js ''c.d'', js ''a.b''] [js ''e.f'', js ''c.d''] =
     sort [js ''e.f'', js ''c.d''] \<and>
   sort [js ''e.f'', js ''c.d''] = [js ''c.d'', js ''e.f'']"
proof -
  have d1: "distinct [js ''c.d'', js ''a.b'']"
    by (simp add: js_def)
  have d2: "distinct [js ''e.f'', js ''c.d'']"
    by (simp add: js_def)
  have s: "sort [js ''e.f'', js ''c.d''] = [js ''c.d'', js ''e.f'']"
    by (simp add: js_def)
  show ?thesis
    using mergeExtensions_is_sorted_recommended [OF d1 d2] d1 d2 s
    by simp
qed

section \<open>Stripping ANSI codes\<close>

lemma takeWhile_shorter:
  "take 1 (dropWhile P xs) = [c] \<Longrightarrow> length (takeWhile P xs) < length xs"
  by (metis length_append less_add_same_cancel1 length_greater_0_conv
      take_eq_Nil takeWhile_dropWhile_id list.distinct(1))

lemma matchANSI_bounds:
  assumes "matchANSI t = Some n"
  shows "4 \<le> n \<and> n \<le> length t"
proof -
  from assms obtain rest where t: "t = 27 # 91 # rest"
    by (auto simp: matchANSI_def split: list.splits if_splits)
  let ?ds = "takeWhile isDigit rest"
  from assms t consider
      (first) "?ds \<noteq> []" "take 1 (dropWhile isDigit rest) = [109]" "n = length ?ds + 3"
    | (second) "take 2 rest = [48, 109]" "n = 4"
    by (auto simp: matchANSI_def Let_def split: if_splits)
  then show ?thesis
  proof cases
    case first
    from first(2) have "length ?ds < length rest"
      by (rule takeWhile_shorter)
    moreover from first(1) have "1 \<le> length ?ds"
      by (cases ?ds) simp_all
    ultimately show ?thesis
      using first(3) t by simp
  next
    case second
    then have "2 \<le> length rest"
      by (cases rest; cases "tl rest") auto
    with second t show ?thesis
      by simp
  qed
qed

lemma takeWhile_append_stop:
  "\<not> P c \<Longrightarrow> takeWhile P (xs @ c # ys) = takeWhile P xs"
  by (induction xs) auto

lemma dropWhile_append_stop:
  "\<not> P c \<Longrightarrow> dropWhile P (xs @ c # ys) = dropWhile P xs @ c # ys"
  by (induction xs) auto

lemma take1_append_stop:
  "c \<noteq> d \<Longrightarrow> (take 1 (xs @ c # ys) = [d]) = (take 1 xs = [d])"
  by (cases xs) auto

lemma take2_append_stop:
  "c \<noteq> 48 \<Longrightarrow> c \<noteq> 109 \<Longrightarrow>
   (take 2 (xs @ c # ys) = [48, 109::nat]) = (take 2 xs = [48, 109])"
  by (cases xs; cases "tl xs") auto

text \<open>
  A code unit that is neither a bracket, a digit nor \<^verbatim>\<open>m\<close> ends every attempt to
  match: what follows it has no influence on a match that starts before it.
\<close>

lemma matchANSI_append:
  assumes "t \<noteq> []" "c \<noteq> 91" "c \<noteq> 109" "\<not> isDigit c"
  shows "matchANSI (t @ c # ys) = matchANSI t"
proof (cases t)
  case Nil
  with assms show ?thesis by simp
next
  case (Cons a t')
  show ?thesis
  proof (cases t')
    case Nil
    with Cons assms show ?thesis
      by (simp add: matchANSI_def)
  next
    case (Cons b rest)
    have c48: "c \<noteq> 48"
      using assms(4) by (auto simp: isDigit_def)
    have 1: "takeWhile isDigit (rest @ c # ys) = takeWhile isDigit rest"
      using assms(4) by (rule takeWhile_append_stop)
    have 2: "(take 1 (dropWhile isDigit (rest @ c # ys)) = [109]) =
             (take 1 (dropWhile isDigit rest) = [109])"
    proof -
      have "dropWhile isDigit (rest @ c # ys) = dropWhile isDigit rest @ c # ys"
        using assms(4) by (rule dropWhile_append_stop)
      then show ?thesis
        using take1_append_stop [OF assms(3), of "dropWhile isDigit rest" ys] by simp
    qed
    have 3: "(take 2 (rest @ c # ys) = [48, 109]) = (take 2 rest = [48, 109])"
      using c48 assms(3) by (rule take2_append_stop)
    have "matchANSI (a # b # rest @ c # ys) = matchANSI (a # b # rest)"
      by (simp only: matchANSI_def list.case Let_def 1 2 3)
    with \<open>t = a # t'\<close> Cons show ?thesis
      by simp
  qed
qed

lemma matchANSI_not_ESC: "c \<noteq> 27 \<Longrightarrow> matchANSI (c # cs) = None"
  by (auto simp: matchANSI_def split: list.splits)

lemma removeANSI_append:
  assumes "c \<noteq> 91" "c \<noteq> 109" "\<not> isDigit c"
  shows "removeANSI (xs @ c # ys) = removeANSI xs @ removeANSI (c # ys)"
proof (induction xs rule: removeANSI.induct)
  case 1
  then show ?case by simp
next
  case (2 x xs)
  have m: "matchANSI ((x # xs) @ c # ys) = matchANSI (x # xs)"
    using assms by (intro matchANSI_append) simp_all
  show ?case
  proof (cases "matchANSI (x # xs)")
    case None
    with 2 m show ?thesis by simp
  next
    case (Some n)
    then have "4 \<le> n \<and> n \<le> length (x # xs)"
      by (rule matchANSI_bounds)
    then have "drop (n - 1) (xs @ c # ys) = drop (n - 1) xs @ c # ys"
      by simp
    with 2 m Some show ?thesis by simp
  qed
qed

lemma removeANSI_id: "\<not> hasANSI s \<Longrightarrow> removeANSI s = s"
  by (induction s) auto

lemma removeANSI_reset: "removeANSI (27 # 91 # 48 # 109 # rest) = removeANSI rest"
  by (simp add: matchANSI_def isDigit_def)

lemma removeANSI_colour:
  "d \<in> {49, 50, 51, 52, 53, 54, 55} \<Longrightarrow>
   removeANSI (27 # 91 # 51 # d # 109 # rest) = removeANSI rest"
  by (auto simp: matchANSI_def isDigit_def)

lemma colorize_cases:
  assumes "color \<in> {js ''red'', js ''green'', js ''yellow'', js ''blue'', js ''magenta'',
                     js ''cyan'', js ''white''}"
  shows "\<exists>d \<in> {49, 50, 51, 52, 53, 54, 55}.
           colorize color s = Inr (27 # 91 # 51 # d # 109 # s @ [27, 91, 48, 109])"
  using assms by (auto simp: colorize_def js_def)

lemma removeANSI_coloured:
  assumes "d \<in> {49, 50, 51, 52, 53, 54, 55}"
  shows "removeANSI (27 # 91 # 51 # d # 109 # s @ 27 # 91 # 48 # 109 # rest) =
         removeANSI s @ removeANSI rest"
proof -
  have "removeANSI (s @ 27 # 91 # 48 # 109 # rest) =
        removeANSI s @ removeANSI (27 # 91 # 48 # 109 # rest)"
    by (rule removeANSI_append) (simp_all add: isDigit_def)
  then show ?thesis
    using assms by (simp only: removeANSI_colour removeANSI_reset)
qed

text \<open>
  C10. For each of the seven colours and each text in which the pattern of
  \<open>removeANSI\<close> matches nowhere, colouring succeeds and stripping the ANSI codes of the
  coloured text gives the text back.
\<close>

theorem removeANSI_colorize:
  assumes "color \<in> {js ''red'', js ''green'', js ''yellow'', js ''blue'', js ''magenta'',
                     js ''cyan'', js ''white''}"
    and "\<not> hasANSI s"
  shows "case colorize color s of
           Inl err \<Rightarrow> False
         | Inr coloured \<Rightarrow> removeANSI coloured = s"
proof -
  from assms(1) obtain d where d: "d \<in> {49, 50, 51, 52, 53, 54, 55}"
    and c: "colorize color s = Inr (27 # 91 # 51 # d # 109 # s @ [27, 91, 48, 109])"
    using colorize_cases by blast
  have "removeANSI (27 # 91 # 51 # d # 109 # s @ 27 # 91 # 48 # 109 # []) =
        removeANSI s @ removeANSI []"
    using d by (rule removeANSI_coloured)
  with assms(2) c show ?thesis
    by (simp add: removeANSI_id)
qed

theorem removeANSI_colorize_witness:
  "js ''red'' \<in> {js ''red'', js ''green'', js ''yellow'', js ''blue'', js ''magenta'',
                 js ''cyan'', js ''white''} \<and>
   \<not> hasANSI (js ''  - a.b'') \<and>
   colorize (js ''red'') (js ''  - a.b'') =
     Inr ([27] @ js ''[31m  - a.b'' @ [27] @ js ''[0m'') \<and>
   removeANSI ([27] @ js ''[31m  - a.b'' @ [27] @ js ''[0m'') = js ''  - a.b''"
proof -
  have h1: "js ''red'' \<in> {js ''red'', js ''green'', js ''yellow'', js ''blue'',
      js ''magenta'', js ''cyan'', js ''white''}"
    by simp
  have h2: "\<not> hasANSI (js ''  - a.b'')"
    by (simp add: js_def matchANSI_def)
  have c: "colorize (js ''red'') (js ''  - a.b'') =
      Inr ([27] @ js ''[31m  - a.b'' @ [27] @ js ''[0m'')"
    by (simp add: colorize_def js_def)
  show ?thesis
    using removeANSI_colorize [OF h1 h2] h1 h2 c by simp
qed

section \<open>Increasing a version\<close>

text \<open>
  C3. The three examples: a major, a minor and a patch increase of version 1.2.3.
\<close>

theorem increaseVersion_examples:
  "increaseVersion (js ''1.2.3'') (js ''major'') = Some (js ''2.0.0'') \<and>
   increaseVersion (js ''1.2.3'') (js ''minor'') = Some (js ''1.3.0'') \<and>
   increaseVersion (js ''1.2.3'') (js ''patch'') = Some (js ''1.2.4'')"
  by (simp add: increaseVersion_def js_def Number_js_def component_def isDigit_def
      decimalValue_def)

section \<open>The shape of the report\<close>

lemma split_js_no_sep: "c \<notin> set xs \<Longrightarrow> split_js c xs = [xs]"
  by (induction xs) auto

lemma split_js_append: "c \<notin> set xs \<Longrightarrow> split_js c (xs @ c # ys) = xs # split_js c ys"
  by (induction xs) auto

lemma taggedList_entryKey:
  "taggedList current updated = map (entryKey current updated) (entryNames current updated)"
  by (auto simp: taggedList_def entryKey_def entryNames_def action_def js_def)

lemma sort_map_key: "sort (map f xs) = map f (sort_key f xs)"
  by (rule properties_for_sort) simp_all

lemma entryLine_entryKey:
  assumes "124 \<notin> set name"
  shows "entryLine (entryKey current updated name) = Inr (reportLine current updated name)"
proof -
  have a: "124 \<notin> set (action current updated name)"
    by (simp add: action_def js_def)
  have "split_js 124 (name @ 124 # action current updated name) =
        [name, action current updated name]"
    using assms a by (simp add: split_js_append split_js_no_sep)
  then show ?thesis
    by (simp add: entryLine_def entryKey_def js_def action_def reportLine_def colorize_def
        marker_def colourDigit_def)
qed

lemma suffix_last: "suffix p s \<Longrightarrow> p \<noteq> [] \<Longrightarrow> last s = last p"
  by (auto simp: suffix_def)

lemma endsWith_keep:
  "endsWith (entryKey current updated name) (js ''|keep'') \<longleftrightarrow>
   action current updated name = js ''keep''"
proof
  assume "endsWith (entryKey current updated name) (js ''|keep'')"
  then have "last (entryKey current updated name) = last (js ''|keep'')"
    unfolding endsWith_def by (rule suffix_last) (simp add: js_def)
  then show "action current updated name = js ''keep''"
    by (auto simp: entryKey_def action_def js_def split: if_splits)
next
  assume "action current updated name = js ''keep''"
  then show "endsWith (entryKey current updated name) (js ''|keep'')"
    by (simp add: endsWith_def entryKey_def js_def suffix_def)
qed

lemma action_keep_iff:
  "action current updated name = js ''keep'' \<longleftrightarrow> name \<in> set current \<and> name \<in> set updated"
  by (simp add: action_def js_def)

lemma no_changes_iff:
  "length (filter (\<lambda>ext. \<not> endsWith ext (js ''|keep'')) (taggedList current updated)) = 0 \<longleftrightarrow>
   set current = set updated"
  by (auto simp: taggedList_entryKey filter_empty_conv endsWith_keep action_keep_iff entryNames_def)

section \<open>The lines that the version bump reads\<close>

lemma removeANSI_no_ESC: "27 \<notin> set xs \<Longrightarrow> removeANSI (xs @ ys) = xs @ removeANSI ys"
  by (induction xs) (auto simp: matchANSI_not_ESC)

lemma set_removeANSI: "set (removeANSI s) \<subseteq> set s"
proof (induction s rule: removeANSI.induct)
  case 1
  then show ?case by simp
next
  case (2 c cs)
  show ?case
  proof (cases "matchANSI (c # cs)")
    case None
    with 2 show ?thesis by auto
  next
    case (Some n)
    with 2 have "set (removeANSI (c # cs)) \<subseteq> set (drop (n - 1) cs)" by simp
    also have "\<dots> \<subseteq> set cs" by (rule set_drop_subset)
    finally show ?thesis by auto
  qed
qed

lemma colourDigit_range: "colourDigit current updated name \<in> {49, 50, 51, 52, 53, 54, 55}"
  by (simp add: colourDigit_def)

lemma marker_not_ESC: "marker current updated name \<noteq> 27"
  by (simp add: marker_def)

lemma removeANSI_reportLine:
  "removeANSI (reportLine current updated name @ rest) =
   plainLine current updated name @ 10 # removeANSI rest"
proof -
  let ?pre = "js ''  '' @ [marker current updated name] @ js '' ''"
  have pre: "27 \<notin> set ?pre"
    using marker_not_ESC [of current updated name] by (auto simp: js_def)
  have "removeANSI (reportLine current updated name @ rest) =
        removeANSI (?pre @ name @ 10 # 27 # 91 # 48 # 109 # rest)"
    using removeANSI_colour [OF colourDigit_range]
    by (simp add: reportLine_def)
  also have "\<dots> = ?pre @ removeANSI (name @ 10 # 27 # 91 # 48 # 109 # rest)"
    using pre by (rule removeANSI_no_ESC)
  also have "removeANSI (name @ 10 # 27 # 91 # 48 # 109 # rest) =
             removeANSI name @ removeANSI (10 # 27 # 91 # 48 # 109 # rest)"
    by (rule removeANSI_append) (simp_all add: isDigit_def)
  also have "removeANSI (10 # 27 # 91 # 48 # 109 # rest) = 10 # removeANSI rest"
    by (simp add: matchANSI_def isDigit_def)
  finally show ?thesis
    by (simp add: plainLine_def)
qed

lemma removeANSI_report_lines:
  "removeANSI (concat (map (reportLine current updated) names)) =
   concat (map (\<lambda>name. plainLine current updated name @ [10]) names)"
  by (induction names) (simp_all add: removeANSI_reportLine)

lemma removeANSI_report:
  "removeANSI (reportHeader @ concat (map (reportLine current updated) names)) =
   reportHeader @ concat (map (\<lambda>name. plainLine current updated name @ [10]) names)"
proof -
  have "27 \<notin> set reportHeader"
    by (simp add: reportHeader_def js_def)
  then show ?thesis
    by (simp add: removeANSI_no_ESC removeANSI_report_lines)
qed

lemma split_js_lines:
  assumes "\<forall>x \<in> set xs. c \<notin> set (f x)"
  shows "split_js c (concat (map (\<lambda>x. f x @ [c]) xs)) = map f xs @ [[]]"
  using assms by (induction xs) (simp_all add: split_js_append)

lemma split_js_report:
  assumes "\<forall>name \<in> set names. 10 \<notin> set name"
  shows "split_js 10 (reportHeader @
           concat (map (\<lambda>name. plainLine current updated name @ [10]) names)) =
         js ''feat(extension): Updates to v{{version}}'' # [] # js ''New extension list:'' #
         map (plainLine current updated) names @ [[]]"
proof -
  have m: "marker current updated name \<noteq> 10" for name
    by (simp add: marker_def)
  have "\<forall>name \<in> set names. 10 \<notin> set (plainLine current updated name)"
    using assms set_removeANSI m by (fastforce simp: plainLine_def js_def)
  then have l: "split_js 10 (concat (map (\<lambda>name. plainLine current updated name @ [10]) names)) =
      map (plainLine current updated) names @ [[]]"
    by (rule split_js_lines)
  have h1: "10 \<notin> set (js ''feat(extension): Updates to v{{version}}'')"
    by (simp add: js_def)
  have h3: "10 \<notin> set (js ''New extension list:'')"
    by (simp add: js_def)
  show ?thesis
    unfolding reportHeader_def
    using split_js_append [OF h1] split_js_append [OF h3] l
      split_js_append [of 10 "[]"]
    by simp
qed

lemma dropWhile_keeps_last: "\<not> P m \<Longrightarrow> \<exists>u. dropWhile P (xs @ [m]) = u @ [m]"
  by (induction xs) auto

lemma trim_starts:
  assumes "\<forall>w \<in> set ws. isWhiteSpace w" "\<not> isWhiteSpace m"
  shows "\<exists>t. trim (ws @ m # rest) = m # t"
proof -
  have "dropWhile isWhiteSpace (ws @ m # rest) = m # rest"
    using assms by (simp add: dropWhile_append3)
  moreover have "\<exists>u. dropWhile isWhiteSpace (rev rest @ [m]) = u @ [m]"
    using assms(2) by (rule dropWhile_keeps_last)
  ultimately obtain u where "trim (ws @ m # rest) = rev (u @ [m])"
    by (auto simp: trim_def)
  then show ?thesis
    by simp
qed

lemma startsWith_trim_plainLine:
  "startsWith (trim (plainLine current updated name)) [c] \<longleftrightarrow> marker current updated name = c"
proof -
  have "\<exists>t. trim (js ''  '' @ marker current updated name # (js '' '' @ removeANSI name)) =
      marker current updated name # t"
    by (rule trim_starts) (auto simp: js_def isWhiteSpace_def marker_def)
  then show ?thesis
    by (auto simp: plainLine_def startsWith_def)
qed

lemma header_lines_no_marker:
  "\<not> startsWith (trim (js ''feat(extension): Updates to v{{version}}'')) [c] \<or> c = 102"
  "\<not> startsWith (trim (js ''New extension list:'')) [c] \<or> c = 78"
  "\<not> startsWith (trim []) [c]"
  by (simp_all add: trim_def js_def isWhiteSpace_def startsWith_def)

lemma versionType_report:
  assumes "\<forall>name \<in> set names. 10 \<notin> set name"
  shows "versionType (reportHeader @ concat (map (reportLine current updated) names)) =
         (if \<exists>name \<in> set names. marker current updated name = 45 then js ''major''
          else if \<exists>name \<in> set names. marker current updated name = 43 then js ''minor''
          else js ''patch'')"
proof -
  have "list_ex (\<lambda>l. startsWith (trim l) [c])
          (js ''feat(extension): Updates to v{{version}}'' # [] # js ''New extension list:'' #
           map (plainLine current updated) names @ [[]]) \<longleftrightarrow>
        (\<exists>name \<in> set names. marker current updated name = c)"
    if "c \<noteq> 102" "c \<noteq> 78" for c
    using that header_lines_no_marker [of c]
    by (auto simp: list_ex_iff startsWith_trim_plainLine)
  from this [of 45] this [of 43] show ?thesis
    by (simp add: versionType_def Let_def removeANSI_report split_js_report [OF assms] js_def)
qed

lemma versionType_empty: "versionType [] = js ''patch''"
  by (simp add: versionType_def trim_def startsWith_def js_def)

lemma Number_js_no_dot: "Number_js s = Some n \<Longrightarrow> 46 \<notin> set s"
  by (auto simp: Number_js_def list_all_iff isDigit_def split: if_splits)

lemma increaseVersion_wellformed:
  assumes "Number_js ma = Some M" "Number_js mi = Some N" "Number_js pa = Some P"
  shows "increaseVersion (ma @ js ''.'' @ mi @ js ''.'' @ pa) (js ''major'') =
           Some (toString (M + 1) @ js ''.0.0'')"
    and "increaseVersion (ma @ js ''.'' @ mi @ js ''.'' @ pa) (js ''minor'') =
           Some (toString M @ js ''.'' @ toString (N + 1) @ js ''.0'')"
    and "increaseVersion (ma @ js ''.'' @ mi @ js ''.'' @ pa) (js ''patch'') =
           Some (toString M @ js ''.'' @ toString N @ js ''.'' @ toString (P + 1))"
proof -
  have "split_js 46 (ma @ 46 # mi @ 46 # pa) = [ma, mi, pa]"
    using assms by (simp add: split_js_append split_js_no_sep Number_js_no_dot)
  then have parts: "map Number_js (split_js 46 (ma @ js ''.'' @ mi @ js ''.'' @ pa)) =
      [Some M, Some N, Some P]"
    using assms by (simp add: js_def)
  show "increaseVersion (ma @ js ''.'' @ mi @ js ''.'' @ pa) (js ''major'') =
      Some (toString (M + 1) @ js ''.0.0'')"
    unfolding increaseVersion_def parts by (simp add: component_def Let_def)
  show "increaseVersion (ma @ js ''.'' @ mi @ js ''.'' @ pa) (js ''minor'') =
      Some (toString M @ js ''.'' @ toString (N + 1) @ js ''.0'')"
    unfolding increaseVersion_def parts by (simp add: component_def Let_def js_def)
  show "increaseVersion (ma @ js ''.'' @ mi @ js ''.'' @ pa) (js ''patch'') =
      Some (toString M @ js ''.'' @ toString N @ js ''.'' @ toString (P + 1))"
    unfolding increaseVersion_def parts by (simp add: component_def Let_def js_def)
qed

lemma appendEntries_keys:
  assumes "\<forall>name \<in> set names. 124 \<notin> set name"
  shows "appendEntries msg (map (entryKey current updated) names) =
         Inr (msg @ concat (map (reportLine current updated) names))"
  using assms by (induction names arbitrary: msg) (simp_all add: entryLine_entryKey)

lemma set_entryNames: "set (entryNames current updated) = set current \<union> set updated"
  by (auto simp: entryNames_def)

lemma report_shape:
  assumes "\<forall>name \<in> set current \<union> set updated. 124 \<notin> set name"
  shows "getCommitMessageByExtensionListChanges current updated =
         (if set current = set updated then Inr []
          else Inr (reportHeader @ concat (map (reportLine current updated)
                 (sort_key (entryKey current updated) (entryNames current updated)))))"
proof -
  let ?names = "sort_key (entryKey current updated) (entryNames current updated)"
  have "\<forall>name \<in> set ?names. 124 \<notin> set name"
    using assms by (simp add: set_entryNames)
  then have "appendEntries reportHeader (map (entryKey current updated) ?names) =
      Inr (reportHeader @ concat (map (reportLine current updated) ?names))"
    by (rule appendEntries_keys)
  then have "appendEntries reportHeader (sort (taggedList current updated)) =
      Inr (reportHeader @ concat (map (reportLine current updated) ?names))"
    by (simp only: taggedList_entryKey sort_map_key)
  then show ?thesis
    unfolding getCommitMessageByExtensionListChanges_def Let_def no_changes_iff
    by simp
qed

lemma marker_removed:
  "(\<exists>name \<in> set (sort_key (entryKey current updated) (entryNames current updated)).
      marker current updated name = 45) \<longleftrightarrow> (\<exists>name \<in> set current. name \<notin> set updated)"
  by (auto simp: set_entryNames marker_def)

lemma marker_added:
  "(\<exists>name \<in> set (sort_key (entryKey current updated) (entryNames current updated)).
      marker current updated name = 43) \<longleftrightarrow> (\<exists>name \<in> set updated. name \<notin> set current)"
  by (auto simp: set_entryNames marker_def)

lemma versionType_of_report:
  assumes "\<forall>name \<in> set current \<union> set updated. 124 \<notin> set name \<and> 10 \<notin> set name"
    and "getCommitMessageByExtensionListChanges current updated = Inr report"
  shows "versionType report =
         (if \<exists>name \<in> set current. name \<notin> set updated then js ''major''
          else if \<exists>name \<in> set updated. name \<notin> set current then js ''minor''
          else js ''patch'')"
proof (cases "set current = set updated")
  case True
  with assms have "report = []"
    by (simp add: report_shape)
  with True show ?thesis
    by (auto simp: versionType_empty)
next
  case False
  let ?names = "sort_key (entryKey current updated) (entryNames current updated)"
  from False assms have r: "report = reportHeader @ concat (map (reportLine current updated) ?names)"
    by (simp add: report_shape)
  have "\<forall>name \<in> set ?names. 10 \<notin> set name"
    using assms(1) by (simp add: set_entryNames)
  then show ?thesis
    unfolding r by (simp only: versionType_report marker_removed marker_added)
qed

section \<open>The change report\<close>

text \<open>
  C4, counterexample to the wording "a sorted list of lines". With the current
  extensions a.b and a.b-c, of which only a.b-c stays, the entry keys are a.b|remove and
  a.b-c|keep; the hyphen is below the bar, so the kept a.b-c comes first. The lines are
  then neither in the order of the identifiers nor sorted as texts, and the report
  differs from the one with the lines in the sorted order of the identifiers.
\<close>

theorem report_order_counterexample:
  "getCommitMessageByExtensionListChanges [js ''a.b'', js ''a.b-c''] [js ''a.b-c''] =
     Inr (reportHeader @
          [27] @ js ''[37m  '' @ [8226] @ js '' a.b-c'' @ [10, 27] @ js ''[0m'' @
          [27] @ js ''[31m  - a.b'' @ [10, 27] @ js ''[0m'') \<and>
   \<not> sorted [js ''a.b-c'', js ''a.b''] \<and>
   \<not> sorted [js ''  '' @ [8226] @ js '' a.b-c'', js ''  - a.b''] \<and>
   getCommitMessageByExtensionListChanges [js ''a.b'', js ''a.b-c''] [js ''a.b-c''] \<noteq>
     Inr (reportSortedByName [js ''a.b'', js ''a.b-c''] [js ''a.b-c''])"
proof -
  have r: "getCommitMessageByExtensionListChanges [js ''a.b'', js ''a.b-c''] [js ''a.b-c''] =
      Inr (reportHeader @
           [27] @ js ''[37m  '' @ [8226] @ js '' a.b-c'' @ [10, 27] @ js ''[0m'' @
           [27] @ js ''[31m  - a.b'' @ [10, 27] @ js ''[0m'')"
    by (simp add: getCommitMessageByExtensionListChanges_def taggedList_def js_def
        endsWith_def suffix_to_prefix entryLine_def colorize_def reportHeader_def)
  have n: "reportSortedByName [js ''a.b'', js ''a.b-c''] [js ''a.b-c''] =
      reportHeader @
      [27] @ js ''[31m  - a.b'' @ [10, 27] @ js ''[0m'' @
      [27] @ js ''[37m  '' @ [8226] @ js '' a.b-c'' @ [10, 27] @ js ''[0m''"
    by (simp add: reportSortedByName_def entryNames_def reportLine_def marker_def
        colourDigit_def js_def)
  have o: "\<not> sorted [js ''a.b-c'', js ''a.b''] \<and>
      \<not> sorted [js ''  '' @ [8226] @ js '' a.b-c'', js ''  - a.b'']"
    by (simp add: js_def)
  have "getCommitMessageByExtensionListChanges [js ''a.b'', js ''a.b-c''] [js ''a.b-c''] \<noteq>
      Inr (reportSortedByName [js ''a.b'', js ''a.b-c''] [js ''a.b-c''])"
    unfolding r n by (simp add: js_def)
  with r o show ?thesis
    by blast
qed

text \<open>
  C4, as the code has it. The report of a list against itself is empty, and so is every
  report without an added and without a removed identifier. Otherwise, for identifiers
  without a bar, the report is the template header followed by one marker-prefixed
  line per identifier (bullet for kept, minus for removed, plus for added), in the
  ascending order of the entry keys, which are the identifiers with the suffixes
  |keep, |remove and |add.
\<close>

theorem report_by_entry_key:
  "getCommitMessageByExtensionListChanges A A = Inr [] \<and>
   (set current = set updated \<longrightarrow>
      getCommitMessageByExtensionListChanges current updated = Inr []) \<and>
   (set current \<noteq> set updated \<and> (\<forall>name \<in> set current \<union> set updated. 124 \<notin> set name) \<longrightarrow>
      getCommitMessageByExtensionListChanges current updated =
        Inr (reportHeader @
             concat (map (reportLine current updated)
               (sort_key (entryKey current updated) (entryNames current updated)))))"
proof -
  have e: "set c = set u \<Longrightarrow> getCommitMessageByExtensionListChanges c u = Inr []" for c u
    unfolding getCommitMessageByExtensionListChanges_def Let_def no_changes_iff by simp
  from e [of A A] e [of current updated] show ?thesis
    by (simp add: report_shape)
qed

theorem report_by_entry_key_witness:
  "set [js ''a.b'', js ''a.b-c''] \<noteq> set [js ''a.b-c''] \<and>
   124 \<notin> set (js ''a.b'') \<and> 124 \<notin> set (js ''a.b-c'') \<and>
   sort_key (entryKey [js ''a.b'', js ''a.b-c''] [js ''a.b-c''])
     (entryNames [js ''a.b'', js ''a.b-c''] [js ''a.b-c'']) = [js ''a.b-c'', js ''a.b''] \<and>
   getCommitMessageByExtensionListChanges [js ''a.b'', js ''a.b-c''] [js ''a.b-c''] =
     Inr (reportHeader @
          concat (map (reportLine [js ''a.b'', js ''a.b-c''] [js ''a.b-c''])
            [js ''a.b-c'', js ''a.b''])) \<and>
   getCommitMessageByExtensionListChanges [js ''a.b-c''] [js ''a.b-c''] = Inr []"
proof -
  have h1: "set [js ''a.b'', js ''a.b-c''] \<noteq> set [js ''a.b-c'']"
    by (simp add: js_def)
  have h2: "\<forall>name \<in> set [js ''a.b'', js ''a.b-c''] \<union> set [js ''a.b-c'']. 124 \<notin> set name"
    by (simp add: js_def)
  have k: "sort_key (entryKey [js ''a.b'', js ''a.b-c''] [js ''a.b-c''])
      (entryNames [js ''a.b'', js ''a.b-c''] [js ''a.b-c'']) = [js ''a.b-c'', js ''a.b'']"
    by (simp add: entryKey_def entryNames_def action_def js_def)
  show ?thesis
    using report_by_entry_key [of "[js ''a.b-c'']" "[js ''a.b'', js ''a.b-c'']" "[js ''a.b-c'']"]
      h1 h2 k
    by simp
qed

section \<open>The version bump policy\<close>

text \<open>
  C2. For identifiers without a bar and without a line feed, a report produced by the
  diff, and a current version of three decimal components that are safe integers: if
  an identifier was removed, the major component is increased and the others are 0;
  otherwise, if one was added, the minor component is increased and the patch
  component is 0; otherwise the patch component alone is increased.
\<close>

theorem bumpVersion_policy:
  assumes "\<forall>name \<in> set current \<union> set updated. 124 \<notin> set name \<and> 10 \<notin> set name"
    and "getCommitMessageByExtensionListChanges current updated = Inr (message data)"
    and "currentVersion data = ma @ js ''.'' @ mi @ js ''.'' @ pa"
    and "Number_js ma = Some M" and "Number_js mi = Some N" and "Number_js pa = Some P"
  shows "bumpVersion data =
         Some (data\<lparr>updatedVersion :=
           if \<exists>name \<in> set current. name \<notin> set updated then toString (M + 1) @ js ''.0.0''
           else if \<exists>name \<in> set updated. name \<notin> set current
             then toString M @ js ''.'' @ toString (N + 1) @ js ''.0''
           else toString M @ js ''.'' @ toString N @ js ''.'' @ toString (P + 1)\<rparr>)"
  unfolding bumpVersion_def versionType_of_report [OF assms(1,2)] assms(3)
  by (simp add: increaseVersion_wellformed [OF assms(4,5,6)])

theorem bumpVersion_policy_witness:
  "124 \<notin> set (js ''a.b'') \<and> 10 \<notin> set (js ''a.b'') \<and>
   124 \<notin> set (js ''c.d'') \<and> 10 \<notin> set (js ''c.d'') \<and>
   124 \<notin> set (js ''e.f'') \<and> 10 \<notin> set (js ''e.f'') \<and>
   getCommitMessageByExtensionListChanges [js ''a.b'', js ''c.d''] [js ''c.d'', js ''e.f''] =
     Inr (reportHeader @
          [27] @ js ''[31m  - a.b'' @ [10, 27] @ js ''[0m'' @
          [27] @ js ''[37m  '' @ [8226] @ js '' c.d'' @ [10, 27] @ js ''[0m'' @
          [27] @ js ''[32m  + e.f'' @ [10, 27] @ js ''[0m'') \<and>
   Number_js (js ''1'') = Some 1 \<and> Number_js (js ''2'') = Some 2 \<and>
   Number_js (js ''3'') = Some 3 \<and>
   bumpVersion
     \<lparr>extensionFiles = [], packageJsonPath = js ''package.json'', packageJson = [],
      currentVersion = js ''1'' @ js ''.'' @ js ''2'' @ js ''.'' @ js ''3'',
      updatedVersion = [],
      currentExtensions = [js ''a.b'', js ''c.d''],
      updatedExtensions = [js ''c.d'', js ''e.f''],
      message = reportHeader @
          [27] @ js ''[31m  - a.b'' @ [10, 27] @ js ''[0m'' @
          [27] @ js ''[37m  '' @ [8226] @ js '' c.d'' @ [10, 27] @ js ''[0m'' @
          [27] @ js ''[32m  + e.f'' @ [10, 27] @ js ''[0m''\<rparr> =
   Some
     \<lparr>extensionFiles = [], packageJsonPath = js ''package.json'', packageJson = [],
      currentVersion = js ''1'' @ js ''.'' @ js ''2'' @ js ''.'' @ js ''3'',
      updatedVersion = js ''2.0.0'',
      currentExtensions = [js ''a.b'', js ''c.d''],
      updatedExtensions = [js ''c.d'', js ''e.f''],
      message = reportHeader @
          [27] @ js ''[31m  - a.b'' @ [10, 27] @ js ''[0m'' @
          [27] @ js ''[37m  '' @ [8226] @ js '' c.d'' @ [10, 27] @ js ''[0m'' @
          [27] @ js ''[32m  + e.f'' @ [10, 27] @ js ''[0m''\<rparr>"
proof -
  let ?msg = "reportHeader @
          [27] @ js ''[31m  - a.b'' @ [10, 27] @ js ''[0m'' @
          [27] @ js ''[37m  '' @ [8226] @ js '' c.d'' @ [10, 27] @ js ''[0m'' @
          [27] @ js ''[32m  + e.f'' @ [10, 27] @ js ''[0m''"
  let ?data = "\<lparr>extensionFiles = [], packageJsonPath = js ''package.json'', packageJson = [],
      currentVersion = js ''1'' @ js ''.'' @ js ''2'' @ js ''.'' @ js ''3'',
      updatedVersion = [],
      currentExtensions = [js ''a.b'', js ''c.d''],
      updatedExtensions = [js ''c.d'', js ''e.f''],
      message = ?msg\<rparr>"
  have names: "\<forall>name \<in> set [js ''a.b'', js ''c.d''] \<union> set [js ''c.d'', js ''e.f''].
      124 \<notin> set name \<and> 10 \<notin> set name"
    by (simp add: js_def)
  have report: "getCommitMessageByExtensionListChanges
      [js ''a.b'', js ''c.d''] [js ''c.d'', js ''e.f''] = Inr (message ?data)"
    by (simp add: getCommitMessageByExtensionListChanges_def taggedList_def js_def
        endsWith_def suffix_to_prefix entryLine_def colorize_def reportHeader_def)
  have version: "currentVersion ?data = js ''1'' @ js ''.'' @ js ''2'' @ js ''.'' @ js ''3''"
    by simp
  have n1: "Number_js (js ''1'') = Some 1"
    by (simp add: Number_js_def js_def isDigit_def decimalValue_def)
  have n2: "Number_js (js ''2'') = Some 2"
    by (simp add: Number_js_def js_def isDigit_def decimalValue_def)
  have n3: "Number_js (js ''3'') = Some 3"
    by (simp add: Number_js_def js_def isDigit_def decimalValue_def)
  have removed: "\<exists>name \<in> set [js ''a.b'', js ''c.d'']. name \<notin> set [js ''c.d'', js ''e.f'']"
    by (simp add: js_def)
  have two: "toString (1 + 1) @ js ''.0.0'' = js ''2.0.0''"
    by (simp add: js_def)
  have "bumpVersion ?data = Some (?data\<lparr>updatedVersion := js ''2.0.0''\<rparr>)"
    using bumpVersion_policy [OF names report version n1 n2 n3] removed two
    by (simp only: if_True)
  with names report n1 n2 n3 show ?thesis
    by simp
qed

section \<open>Running the effects\<close>

lemma colorize_known:
  "colorize (js ''white'') t = Inr (27 # 91 # 51 # 55 # 109 # t @ [27, 91, 48, 109])"
  "colorize (js ''cyan'') t = Inr (27 # 91 # 51 # 54 # 109 # t @ [27, 91, 48, 109])"
  "colorize (js ''magenta'') t = Inr (27 # 91 # 51 # 53 # 109 # t @ [27, 91, 48, 109])"
  "colorize (js ''yellow'') t = Inr (27 # 91 # 51 # 51 # 109 # t @ [27, 91, 48, 109])"
  "colorize (js ''green'') t = Inr (27 # 91 # 51 # 50 # 109 # t @ [27, 91, 48, 109])"
  "colorize (js ''red'') t = Inr (27 # 91 # 51 # 49 # 109 # t @ [27, 91, 48, 109])"
  by (simp_all add: colorize_def js_def)

lemma andThen_simps:
  "andThen (ret x) f = f x"
  "andThen (throw e) f = throw e"
  "andThen (exit code) f = exit code"
  by (rule ext, simp add: andThen_def ret_def throw_def exit_def)+

lemma tryCatch_simps:
  "tryCatch (ret x) h = ret x"
  "tryCatch (throw e) h = h e"
  "tryCatch (exit code) h = exit code"
  by (rule ext, simp add: tryCatch_def ret_def throw_def exit_def)+

lemma lift_simps: "lift (Inr x) = ret x" "lift (Inl e) = throw e"
  by (simp_all add: lift_def)

lemma andThen_console_log:
  "andThen (console_log line) f w = f () (w\<lparr>console := console w @ [line]\<rparr>)"
  by (simp add: andThen_def console_log_def)

lemma appendLog_cases:
  "appendLog entry w =
     (case logError w of
        Some m \<Rightarrow> throw (Error m) w
      | None \<Rightarrow> ret () (w\<lparr>logFile := logFile w @ [entry]\<rparr>))"
  by (simp add: appendLog_def throw_def ret_def split: option.splits)

lemma Logger_log_result:
  "Logger_log type msg v w =
     (case logError w of
        None \<Rightarrow>
          (Return (),
           w\<lparr>console := console w @ logShown type msg v (verbose w),
             logFile := logFile w @ [removeANSI (logEntry type msg v) @ [10, 10]]\<rparr>)
      | Some m \<Rightarrow>
          (Throw (Error (27 # 91 # 51 # 49 # 109 # js ''[ERROR]'' @ [27, 91, 48, 109] @
                         js '' Failed to log message:'' @ [10] @ m @ [10, 10])),
           w\<lparr>console := console w @ logShown type msg v (verbose w)\<rparr>))"
  by (cases "logError w"; cases v; cases type; cases "verbose w")
    (simp_all add: Logger_log_def logLabel_def logEntry_def logShown_def colorize_known
       andThen_simps tryCatch_simps lift_simps tryCatch_def ret_def throw_def
       appendLog_def andThen_def console_log_def del: removeANSI.simps)

lemma info_result:
  "info msg v w =
     (case logError w of
        None \<Rightarrow>
          (Return (),
           w\<lparr>console := console w @ logShown Info msg v (verbose w),
             logFile := logFile w @ [removeANSI (logEntry Info msg v) @ [10, 10]]\<rparr>)
      | Some m \<Rightarrow>
          (Throw (Error (27 # 91 # 51 # 49 # 109 # js ''[ERROR]'' @ [27, 91, 48, 109] @
                         js '' Failed to log message:'' @ [10] @ m @ [10, 10])),
           w\<lparr>console := console w @ logShown Info msg v (verbose w)\<rparr>))"
  unfolding info_def by (rule Logger_log_result)

lemma execGitCommand_result:
  "execGitCommand cmd w =
     (case gitFailure cmd w of
        Some m \<Rightarrow> (Throw (LoggerErrorHandler (js ''Git command failed'')
                    (js ''Command: '' @ commandLine cmd @ [10] @ js ''Error: '' @ m)), w)
      | None \<Rightarrow> (Return (fst (git cmd w)), snd (git cmd w)))"
  by (simp add: execGitCommand_def split: option.splits prod.splits)

lemma confirm_result:
  "confirm msg w =
     (let ask = msg @ js '' ('' @ (27 # 91 # 51 # 50 # 109 # js ''y'' @ [27, 91, 48, 109]) @ js ''/'' @
                 (27 # 91 # 51 # 49 # 109 # js ''n'' @ [27, 91, 48, 109]) @ js ''): '';
          w1 = w\<lparr>prompts := Suc (prompts w),
                 console := console w @ [(27 # 91 # 51 # 53 # 109 # js ''[QUESTION] '' @ [27, 91, 48, 109]) @ ask]\<rparr>
      in case question (ask @ answers w (prompts w)) w1 of
           (Return u, w2) \<Rightarrow> (Return (saysYes (answers w (prompts w))), w2)
         | (Throw e, w2) \<Rightarrow> (Throw e, w2)
         | (Exit c, w2) \<Rightarrow> (Exit c, w2))"
  by (simp add: confirm_def colorize_known lift_simps andThen_simps Let_def)
     (simp add: andThen_def prompt_def ret_def split: prod.splits outcome.splits)

lemma git_frame:
  "gitError (snd (git cmd w)) = gitError w"
  "logError (snd (git cmd w)) = logError w"
  "answers (snd (git cmd w)) = answers w"
  "prompts (snd (git cmd w)) = prompts w"
  "console (snd (git cmd w)) = console w"
  "logFile (snd (git cmd w)) = logFile w"
  "verbose (snd (git cmd w)) = verbose w"
  "written (snd (git cmd w)) = written w"
  "writeError (snd (git cmd w)) = writeError w"
  by (cases cmd; simp add: git_def)+

lemma git_commits:
  "commits (snd (git (GitAdd paths) w)) = commits w"
  "commits (snd (git GitDiffCached w)) = commits w"
  "commits (snd (git GitRestoreStaged w)) = commits w"
  by (simp_all add: git_def)

lemma git_restore_staged: "staged (snd (git GitRestoreStaged w)) = []"
  by (simp add: git_def)

lemma gitFailure_simps:
  "gitFailure (GitAdd paths) w = gitError w (GitAdd paths)"
  "gitFailure GitDiffCached w = gitError w GitDiffCached"
  "gitFailure GitRestoreStaged w = gitError w GitRestoreStaged"
  by (simp_all add: gitFailure_def split: option.splits)

lemma getStagedFiles_result:
  "getStagedFiles w =
     (case gitError w GitDiffCached of
        Some m \<Rightarrow> (Throw (LoggerErrorHandler (js ''Git command failed'')
                    (js ''Command: '' @ commandLine GitDiffCached @ [10] @ js ''Error: '' @ m)), w)
      | None \<Rightarrow> (Return (filter (\<lambda>file. trim file \<noteq> [])
                   (split_js 10 (concat (map (\<lambda>f. f @ [10]) (staged w))))), w))"
  by (simp add: getStagedFiles_def andThen_def execGitCommand_result gitFailure_simps git_def ret_def
      split: option.splits)

section \<open>Declining the confirmation\<close>

lemma ask_declined:
  fixes msg abortText :: jsstring
  defines "ask \<equiv>
     andThen (info (js ''The following changes will be applied:'' @ [10]) (Some msg)) (\<lambda>_.
     andThen (console_log msg) (\<lambda>_.
     andThen (confirm (js ''Do you want to apply the changes?'')) (\<lambda>confirmed.
     andThen
       (if \<not> confirmed then
          andThen (execGitCommand GitRestoreStaged) (\<lambda>_.
          andThen (info (js ''Aborted! No changes applied.'') (Some abortText)) (\<lambda>_.
          exit 0))
        else ret ()) (\<lambda>_.
     andThen (execGitCommand (GitCommit msg)) (\<lambda>_.
     ret True)))))"
  assumes no: "\<not> saysYes (answers w (prompts w))"
    and restore: "gitError w GitRestoreStaged = None"
  shows "(\<exists>w'. ask w = (Exit 0, w') \<and> staged w' = [] \<and> commits w' = commits w) \<or>
         (\<exists>e w'. ask w = (Throw e, w') \<and> prompts w' = prompts w \<and> gitError w' = gitError w)"
proof (cases "logError w")
  case (Some m)
  then show ?thesis
    by (simp add: ask_def andThen_def info_result)
next
  case None
  then show ?thesis
    using no restore
    by (simp add: ask_def andThen_def info_result console_log_def confirm_result question_def
        Logger_log_result execGitCommand_result gitFailure_simps git_frame exit_def
        git_restore_staged git_commits Let_def)
qed

lemma decline_project:
  assumes run: "commitProjectFiles projectFiles w = (r, w')"
    and asked: "prompts w' = Suc (prompts w)"
    and no: "\<not> saysYes (answers w (prompts w))"
    and restore: "gitError w GitRestoreStaged = None"
  shows "r = Exit 0 \<and> staged w' = [] \<and> commits w' = commits w"
proof (cases "gitError w (GitAdd projectFiles)")
  case (Some m)
  with restore have "prompts (snd (commitProjectFiles projectFiles w)) = prompts w"
    by (simp add: commitProjectFiles_def tryCatch_def andThen_def execGitCommand_result
        gitFailure_simps throw_def git_frame)
  with run asked show ?thesis by simp
next
  case add: None
  let ?w1 = "snd (git (GitAdd projectFiles) w)"
  show ?thesis
  proof (cases "gitError w GitDiffCached")
    case (Some m)
    with add restore have "prompts (snd (commitProjectFiles projectFiles w)) = prompts w"
      by (simp add: commitProjectFiles_def tryCatch_def andThen_def execGitCommand_result
          gitFailure_simps throw_def getStagedFiles_result git_frame)
    with run asked show ?thesis by simp
  next
    case diff: None
    let ?files = "filter (\<lambda>file. trim file \<noteq> [])
        (split_js 10 (concat (map (\<lambda>f. f @ [10]) (staged ?w1))))"
    let ?msg = "getCommitMessageByStagedFiles ?files (js ''chore: Updated project files'')"
    show ?thesis
    proof (cases "trim ?msg = []")
      case True
      with add diff restore have "prompts (snd (commitProjectFiles projectFiles w)) = prompts w"
        by (simp add: commitProjectFiles_def tryCatch_def andThen_def execGitCommand_result
            gitFailure_simps throw_def getStagedFiles_result git_frame info_result ret_def
            split: option.splits)
      with run asked show ?thesis by simp
    next
      case False
      have no1: "\<not> saysYes (answers ?w1 (prompts ?w1))"
        using no by (simp add: git_frame)
      have restore1: "gitError ?w1 GitRestoreStaged = None"
        using restore by (simp add: git_frame)
      from ask_declined [OF no1 restore1, of ?msg "js ''User aborted the operation `commitProjectFiles`.''"]
      show ?thesis
      proof (elim disjE exE conjE)
        fix w2
        assume "andThen (info (js ''The following changes will be applied:'' @ [10]) (Some ?msg)) (\<lambda>_.
     andThen (console_log ?msg) (\<lambda>_.
     andThen (confirm (js ''Do you want to apply the changes?'')) (\<lambda>confirmed.
     andThen
       (if \<not> confirmed then
          andThen (execGitCommand GitRestoreStaged) (\<lambda>_.
          andThen (info (js ''Aborted! No changes applied.'') (Some (js ''User aborted the operation `commitProjectFiles`.''))) (\<lambda>_.
          exit 0))
        else ret ()) (\<lambda>_.
     andThen (execGitCommand (GitCommit ?msg)) (\<lambda>_.
     ret True))))) ?w1 = (Exit 0, w2)" "staged w2 = []" "commits w2 = commits ?w1"
        with add diff False have "commitProjectFiles projectFiles w = (Exit 0, w2)"
          by (simp add: commitProjectFiles_def tryCatch_def andThen_def [of "execGitCommand (GitAdd projectFiles)"]
              andThen_def [of getStagedFiles] execGitCommand_result
            gitFailure_simps getStagedFiles_result git_frame Let_def)
        with run \<open>staged w2 = []\<close> \<open>commits w2 = commits ?w1\<close> show ?thesis
          by (simp add: git_commits)
      next
        fix e w2
        assume "andThen (info (js ''The following changes will be applied:'' @ [10]) (Some ?msg)) (\<lambda>_.
     andThen (console_log ?msg) (\<lambda>_.
     andThen (confirm (js ''Do you want to apply the changes?'')) (\<lambda>confirmed.
     andThen
       (if \<not> confirmed then
          andThen (execGitCommand GitRestoreStaged) (\<lambda>_.
          andThen (info (js ''Aborted! No changes applied.'') (Some (js ''User aborted the operation `commitProjectFiles`.''))) (\<lambda>_.
          exit 0))
        else ret ()) (\<lambda>_.
     andThen (execGitCommand (GitCommit ?msg)) (\<lambda>_.
     ret True))))) ?w1 = (Throw e, w2)" "prompts w2 = prompts ?w1" "gitError w2 = gitError ?w1"
        with add diff False restore have "prompts (snd (commitProjectFiles projectFiles w)) = prompts w"
          by (simp add: commitProjectFiles_def tryCatch_def andThen_def [of "execGitCommand (GitAdd projectFiles)"]
              andThen_def [of getStagedFiles] andThen_def [of "execGitCommand GitRestoreStaged"]
              execGitCommand_result throw_def
            gitFailure_simps getStagedFiles_result git_frame Let_def)
        with run asked show ?thesis by simp
      qed
    qed
  qed
qed

lemma decline_extension:
  assumes run: "commitExtensionFiles data w = (r, w')"
    and asked: "prompts w' = Suc (prompts w)"
    and no: "\<not> saysYes (answers w (prompts w))"
    and restore: "gitError w GitRestoreStaged = None"
  shows "r = Exit 0 \<and> staged w' = [] \<and> commits w' = commits w"
proof (cases "gitError w (GitAdd [js ''.''])")
  case (Some m)
  with restore have "prompts (snd (commitExtensionFiles data w)) = prompts w"
    by (simp add: commitExtensionFiles_def tryCatch_def andThen_def execGitCommand_result
        gitFailure_simps throw_def git_frame)
  with run asked show ?thesis by simp
next
  case add: None
  let ?w1 = "snd (git (GitAdd [js ''.'']) w)"
  show ?thesis
  proof (cases "trim (message data) = []")
    case True
    with add restore have "prompts (snd (commitExtensionFiles data w)) = prompts w"
      by (simp add: commitExtensionFiles_def tryCatch_def andThen_def execGitCommand_result
          gitFailure_simps throw_def git_frame info_result ret_def
          split: option.splits)
    with run asked show ?thesis by simp
  next
    case False
    have no1: "\<not> saysYes (answers ?w1 (prompts ?w1))"
      using no by (simp add: git_frame)
    have restore1: "gitError ?w1 GitRestoreStaged = None"
      using restore by (simp add: git_frame)
    from ask_declined [OF no1 restore1, of "message data"
        "js ''User aborted the operation `commitExtensionFiles`.''"]
    show ?thesis
    proof (elim disjE exE conjE)
      fix w2
      assume a: "andThen (info (js ''The following changes will be applied:'' @ [10]) (Some (message data))) (\<lambda>_.
     andThen (console_log (message data)) (\<lambda>_.
     andThen (confirm (js ''Do you want to apply the changes?'')) (\<lambda>confirmed.
     andThen
       (if \<not> confirmed then
          andThen (execGitCommand GitRestoreStaged) (\<lambda>_.
          andThen (info (js ''Aborted! No changes applied.'') (Some (js ''User aborted the operation `commitExtensionFiles`.''))) (\<lambda>_.
          exit 0))
        else ret ()) (\<lambda>_.
     andThen (execGitCommand (GitCommit (message data))) (\<lambda>_.
     ret True))))) ?w1 = (Exit 0, w2)"
        and s: "staged w2 = []" and c: "commits w2 = commits ?w1"
      from a add False have "commitExtensionFiles data w = (Exit 0, w2)"
        by (simp add: commitExtensionFiles_def tryCatch_def
            andThen_def [of "execGitCommand (GitAdd [js ''.''])"] execGitCommand_result
            gitFailure_simps)
      with run s c show ?thesis
        by (simp add: git_commits)
    next
      fix e w2
      assume a: "andThen (info (js ''The following changes will be applied:'' @ [10]) (Some (message data))) (\<lambda>_.
     andThen (console_log (message data)) (\<lambda>_.
     andThen (confirm (js ''Do you want to apply the changes?'')) (\<lambda>confirmed.
     andThen
       (if \<not> confirmed then
          andThen (execGitCommand GitRestoreStaged) (\<lambda>_.
          andThen (info (js ''Aborted! No changes applied.'') (Some (js ''User aborted the operation `commitExtensionFiles`.''))) (\<lambda>_.
          exit 0))
        else ret ()) (\<lambda>_.
     andThen (execGitCommand (GitCommit (message data))) (\<lambda>_.
     ret True))))) ?w1 = (Throw e, w2)"
        and p: "prompts w2 = prompts ?w1" and g: "gitError w2 = gitError ?w1"
      from a p g add False restore
      have "prompts (snd (commitExtensionFiles data w)) = prompts w"
        by (simp add: commitExtensionFiles_def tryCatch_def
            andThen_def [of "execGitCommand (GitAdd [js ''.''])"]
            andThen_def [of "execGitCommand GitRestoreStaged"]
            execGitCommand_result throw_def gitFailure_simps git_frame)
      with run asked show ?thesis by simp
    qed
  qed
qed

text \<open>
  C7. When the confirmation prompt of a commit stage was asked and the answer does not
  start with y or Y, and the restore command does not fail, then the stage ends the
  process with exit status 0, the index is empty, and no commit was added.
\<close>

theorem decline_aborts:
  assumes "\<not> saysYes (answers w (prompts w))"
    and "gitError w GitRestoreStaged = None"
  shows "(commitProjectFiles projectFiles w = (r, w') \<and> prompts w' = Suc (prompts w) \<longrightarrow>
            r = Exit 0 \<and> staged w' = [] \<and> commits w' = commits w) \<and>
         (commitExtensionFiles data w = (r, w') \<and> prompts w' = Suc (prompts w) \<longrightarrow>
            r = Exit 0 \<and> staged w' = [] \<and> commits w' = commits w)"
  using decline_project [OF _ _ assms] decline_extension [OF _ _ assms] by blast

theorem decline_aborts_witness:
  "\<not> saysYes (js ''n'') \<and>
   fst (commitProjectFiles [js ''src/index.js'']
          (quietWorld\<lparr>unstaged := [js ''README.md'', js ''src/index.js'']\<rparr>)) = Exit 0 \<and>
   prompts (snd (commitProjectFiles [js ''src/index.js'']
          (quietWorld\<lparr>unstaged := [js ''README.md'', js ''src/index.js'']\<rparr>))) = Suc 0 \<and>
   staged (snd (commitProjectFiles [js ''src/index.js'']
          (quietWorld\<lparr>unstaged := [js ''README.md'', js ''src/index.js'']\<rparr>))) = [] \<and>
   commits (snd (commitProjectFiles [js ''src/index.js'']
          (quietWorld\<lparr>unstaged := [js ''README.md'', js ''src/index.js'']\<rparr>))) = [] \<and>
   fst (commitExtensionFiles (unchangedPack\<lparr>message := js ''feat: x''\<rparr>)
          (quietWorld\<lparr>unstaged := [js ''package.json'']\<rparr>)) = Exit 0 \<and>
   prompts (snd (commitExtensionFiles (unchangedPack\<lparr>message := js ''feat: x''\<rparr>)
          (quietWorld\<lparr>unstaged := [js ''package.json'']\<rparr>))) = Suc 0 \<and>
   staged (snd (commitExtensionFiles (unchangedPack\<lparr>message := js ''feat: x''\<rparr>)
          (quietWorld\<lparr>unstaged := [js ''package.json'']\<rparr>))) = [] \<and>
   commits (snd (commitExtensionFiles (unchangedPack\<lparr>message := js ''feat: x''\<rparr>)
          (quietWorld\<lparr>unstaged := [js ''package.json'']\<rparr>))) = []"
proof -
  let ?w = "quietWorld\<lparr>unstaged := [js ''README.md'', js ''src/index.js'']\<rparr>"
  let ?run = "commitProjectFiles [js ''src/index.js''] ?w"
  let ?v = "quietWorld\<lparr>unstaged := [js ''package.json'']\<rparr>"
  let ?d = "unchangedPack\<lparr>message := js ''feat: x''\<rparr>"
  let ?ext = "commitExtensionFiles ?d ?v"
  have no: "\<not> saysYes (answers ?w (prompts ?w))" "\<not> saysYes (answers ?v (prompts ?v))"
    by (simp_all add: saysYes_def js_def quietWorld_def)
  have restore: "gitError ?w GitRestoreStaged = None" "gitError ?v GitRestoreStaged = None"
    by (simp_all add: quietWorld_def)
  have asked: "prompts (snd ?run) = Suc (prompts ?w)"
    by (simp add: commitProjectFiles_def tryCatch_def andThen_def execGitCommand_result
        gitFailure_simps throw_def git_frame info_result ret_def getStagedFiles_result
        git_def trim_def isWhiteSpace_def getCommitMessageByStagedFiles_def escapeQuotes_def
        js_def console_log_def confirm_result question_def Logger_log_result saysYes_def
        exit_def Let_def quietWorld_def)
  have asked': "prompts (snd ?ext) = Suc (prompts ?v)"
    by (simp add: commitExtensionFiles_def tryCatch_def andThen_def execGitCommand_result
        gitFailure_simps throw_def git_frame info_result ret_def
        git_def trim_def isWhiteSpace_def
        js_def console_log_def confirm_result question_def Logger_log_result saysYes_def
        exit_def Let_def quietWorld_def unchangedPack_def)
  have "?run = (fst ?run, snd ?run)"
    by simp
  with decline_aborts [OF no(1) restore(1), of "[js ''src/index.js'']" "fst ?run" "snd ?run"]
    asked
  have 1: "fst ?run = Exit 0 \<and> staged (snd ?run) = [] \<and> commits (snd ?run) = commits ?w"
    by blast
  have "?ext = (fst ?ext, snd ?ext)"
    by simp
  with decline_aborts [OF no(2) restore(2), of _ "fst ?ext" "snd ?ext" ?d] asked'
  have 2: "fst ?ext = Exit 0 \<and> staged (snd ?ext) = [] \<and> commits (snd ?ext) = commits ?v"
    by blast
  from 1 2 asked asked' no(1) show ?thesis
    by (simp add: quietWorld_def)
qed

section \<open>The enrich stage\<close>

lemma getStagedFiles_stagedPaths:
  "getStagedFiles w =
     (case gitError w GitDiffCached of
        Some m \<Rightarrow> (Throw (LoggerErrorHandler (js ''Git command failed'')
                    (js ''Command: '' @ commandLine GitDiffCached @ [10] @ js ''Error: '' @ m)), w)
      | None \<Rightarrow> (Return (stagedPaths w), w))"
  by (simp add: getStagedFiles_result stagedPaths_def split: option.splits)

lemma enrich_result:
  assumes "gitError w (GitAdd (extensionFiles data)) = None"
    and "gitError w GitDiffCached = None"
    and "gitError w GitRestoreStaged = None"
  shows "addAdditionalInfoToMessage data w =
     (Return
        (if length (filter (\<lambda>f. if trim (message data) \<noteq> []
                                  then \<not> includes_js f (js ''package.json'') else True)
                      (stagedPaths (snd (git (GitAdd (extensionFiles data)) w)))) > 0
         then data\<lparr>message :=
                (if trim (message data) \<noteq> [] then message data @ [10, 10]
                 else js ''feat(extension): Updates to v{{version}}'' @ [10, 10]) @
                getCommitMessageByStagedFiles
                  (stagedPaths (snd (git (GitAdd (extensionFiles data)) w)))
                  (js ''Extension files updated:'')\<rparr>
         else data),
      snd (git GitRestoreStaged (snd (git (GitAdd (extensionFiles data)) w))))"
  using assms
  by (simp add: addAdditionalInfoToMessage_def andThen_def execGitCommand_result
      gitFailure_simps getStagedFiles_stagedPaths git_frame ret_def Let_def
      del: length_greater_0_conv)

text \<open>
  C6, counterexample. The message is empty and the manifest is the only staged file:
  no staged path is free of \<^verbatim>\<open>package.json\<close>, and still the listing is appended to
  the template header.
\<close>

theorem enrich_manifest_only_counterexample:
  "fst (addAdditionalInfoToMessage unchangedPack
          (quietWorld\<lparr>unstaged := [js ''package.json'']\<rparr>)) =
     Return (unchangedPack\<lparr>message :=
       js ''feat(extension): Updates to v{{version}}'' @ [10, 10] @
       js ''Extension files updated:'' @ [10, 10] @ js ''- package.json'' @ [10]\<rparr>) \<and>
   stagedPaths (snd (git (GitAdd (extensionFiles unchangedPack))
                  (quietWorld\<lparr>unstaged := [js ''package.json'']\<rparr>))) = [js ''package.json''] \<and>
   includes_js (js ''package.json'') (js ''package.json'')"
  by (simp add: addAdditionalInfoToMessage_def andThen_def execGitCommand_result
      gitFailure_simps getStagedFiles_result git_frame ret_def Let_def stagedPaths_def
      git_def js_def trim_def isWhiteSpace_def getCommitMessageByStagedFiles_def
      escapeQuotes_def quietWorld_def unchangedPack_def)

text \<open>
  C6, as the code has it. When the three git commands succeed, the listing of the
  staged files is appended exactly when some staged path counts: every staged path
  counts while the message is blank, and only the paths that do not contain
  \<^verbatim>\<open>package.json\<close> count once the message is not blank. In both cases the stage
  returns with an empty index.
\<close>

theorem enrich_listing:
  fixes data :: ExtensionPackData and w :: world
  defines "files \<equiv> stagedPaths (snd (git (GitAdd (extensionFiles data)) w))"
  assumes "gitError w (GitAdd (extensionFiles data)) = None"
    and "gitError w GitDiffCached = None"
    and "gitError w GitRestoreStaged = None"
  shows "fst (addAdditionalInfoToMessage data w) =
           Return (data\<lparr>message :=
             if \<exists>f \<in> set files. trim (message data) \<noteq> [] \<longrightarrow>
                                   \<not> includes_js f (js ''package.json'')
             then (if trim (message data) \<noteq> [] then message data @ [10, 10]
                   else js ''feat(extension): Updates to v{{version}}'' @ [10, 10]) @
                  getCommitMessageByStagedFiles files (js ''Extension files updated:'')
             else message data\<rparr>) \<and>
         staged (snd (addAdditionalInfoToMessage data w)) = []"
proof -
  have f: "length (filter (\<lambda>f. if trim (message data) \<noteq> []
                                then \<not> includes_js f (js ''package.json'') else True) files) > 0
     \<longleftrightarrow> (\<exists>f \<in> set files. trim (message data) \<noteq> [] \<longrightarrow>
                               \<not> includes_js f (js ''package.json''))"
    by (auto simp: filter_empty_conv)
  have d: "data = data\<lparr>message := message data\<rparr>"
    by simp
  show ?thesis
    unfolding enrich_result [OF assms(2-4)] files_def [symmetric] f
    using d by (simp add: git_restore_staged)
qed

theorem enrich_listing_witness:
  "gitError (quietWorld\<lparr>unstaged := [js ''package.json'', js ''README.md'']\<rparr>)
     (GitAdd (extensionFiles (unchangedPack\<lparr>message := js ''feat: x''\<rparr>))) = None \<and>
   fst (addAdditionalInfoToMessage (unchangedPack\<lparr>message := js ''feat: x''\<rparr>)
          (quietWorld\<lparr>unstaged := [js ''package.json'', js ''README.md'']\<rparr>)) =
     Return (unchangedPack\<lparr>message :=
       js ''feat: x'' @ [10, 10] @
       js ''Extension files updated:'' @ [10, 10] @ js ''- package.json'' @ [10] @
       js ''- README.md'' @ [10]\<rparr>) \<and>
   staged (snd (addAdditionalInfoToMessage (unchangedPack\<lparr>message := js ''feat: x''\<rparr>)
          (quietWorld\<lparr>unstaged := [js ''package.json'', js ''README.md'']\<rparr>))) = []"
proof -
  let ?d = "unchangedPack\<lparr>message := js ''feat: x''\<rparr>"
  let ?w = "quietWorld\<lparr>unstaged := [js ''package.json'', js ''README.md'']\<rparr>"
  have g: "gitError ?w (GitAdd (extensionFiles ?d)) = None"
    "gitError ?w GitDiffCached = None" "gitError ?w GitRestoreStaged = None"
    by (simp_all add: quietWorld_def)
  have p: "stagedPaths (snd (git (GitAdd (extensionFiles ?d)) ?w)) =
      [js ''package.json'', js ''README.md'']"
    by (simp add: stagedPaths_def git_def quietWorld_def unchangedPack_def js_def trim_def
        isWhiteSpace_def)
  have m: "trim (message ?d) \<noteq> []"
    by (simp add: js_def trim_def isWhiteSpace_def)
  have i: "\<not> includes_js (js ''README.md'') (js ''package.json'')"
    by (simp add: js_def)
  have l: "getCommitMessageByStagedFiles [js ''package.json'', js ''README.md'']
      (js ''Extension files updated:'') =
      js ''Extension files updated:'' @ [10, 10] @ js ''- package.json'' @ [10] @
      js ''- README.md'' @ [10]"
    by (simp add: getCommitMessageByStagedFiles_def escapeQuotes_def js_def)
  show ?thesis
    using enrich_listing [OF g] g(1) m i
    unfolding p l
    by simp
qed

section \<open>The manifest update\<close>

lemma filter_update_other:
  "\<not> P k \<Longrightarrow> filter (\<lambda>property. P (fst property)) (AList.update k v al) =
                 filter (\<lambda>property. P (fst property)) al"
  by (induction al) auto

lemma updatePackageJson_result:
  assumes "writeError w (packageJsonPath data) = None"
  shows "updatePackageJson data w =
     (Return (data\<lparr>packageJson :=
        AList.update (js ''extensionPack'') (JArray (map JString (updatedExtensions data)))
          (AList.update (js ''version'') (JString (updatedVersion data)) (packageJson data))\<rparr>),
      w\<lparr>written := written w @
        [(packageJsonPath data,
          JSON_stringify (JObject
            (AList.update (js ''extensionPack'') (JArray (map JString (updatedExtensions data)))
              (AList.update (js ''version'') (JString (updatedVersion data))
                 (packageJson data)))) 4)]\<rparr>)"
  using assms
  by (simp add: updatePackageJson_def tryCatch_def andThen_def writeFileSync_def ret_def Let_def)

text \<open>
  C8. When the write succeeds, the file written is the JSON text, indented by 4, of the
  manifest with the properties \<^verbatim>\<open>version\<close> and \<^verbatim>\<open>extensionPack\<close> assigned; every
  other property of the parsed manifest is in it with its value, at its place among
  the other properties.
\<close>

theorem updatePackageJson_frame:
  fixes data :: ExtensionPackData and w :: world
  defines "manifest \<equiv>
     AList.update (js ''extensionPack'') (JArray (map JString (updatedExtensions data)))
       (AList.update (js ''version'') (JString (updatedVersion data)) (packageJson data))"
  assumes "writeError w (packageJsonPath data) = None"
  shows "updatePackageJson data w =
           (Return (data\<lparr>packageJson := manifest\<rparr>),
            w\<lparr>written := written w @
               [(packageJsonPath data, JSON_stringify (JObject manifest) 4)]\<rparr>) \<and>
         filter (\<lambda>property. fst property \<notin> {js ''version'', js ''extensionPack''}) manifest =
         filter (\<lambda>property. fst property \<notin> {js ''version'', js ''extensionPack''})
           (packageJson data) \<and>
         (\<forall>key. key \<notin> {js ''version'', js ''extensionPack''} \<longrightarrow>
            map_of manifest key = map_of (packageJson data) key)"
proof -
  have "filter (\<lambda>property. fst property \<notin> {js ''version'', js ''extensionPack''}) manifest =
      filter (\<lambda>property. fst property \<notin> {js ''version'', js ''extensionPack''})
        (packageJson data)"
    unfolding manifest_def
    by (simp add: filter_update_other
        [where P = "\<lambda>key. key \<noteq> js ''version'' \<and> key \<noteq> js ''extensionPack''"])
  moreover have "\<forall>key. key \<notin> {js ''version'', js ''extensionPack''} \<longrightarrow>
      map_of manifest key = map_of (packageJson data) key"
    unfolding manifest_def by (simp add: update_conv')
  ultimately show ?thesis
    using updatePackageJson_result [OF assms(2)] unfolding manifest_def by simp
qed

theorem updatePackageJson_frame_witness:
  "writeError quietWorld (packageJsonPath unchangedPack) = None \<and>
   updatePackageJson unchangedPack quietWorld =
     (Return (unchangedPack\<lparr>packageJson :=
        [(js ''name'', JString (js ''dev-essentials-pack'')),
         (js ''version'', JString (js ''1.0.1'')),
         (js ''extensionPack'', JArray [JString (js ''a.b'')]),
         (js ''license'', JString (js ''MIT''))]\<rparr>),
      quietWorld\<lparr>written :=
        [(js ''package.json'',
          JSON_stringify (JObject
            [(js ''name'', JString (js ''dev-essentials-pack'')),
             (js ''version'', JString (js ''1.0.1'')),
             (js ''extensionPack'', JArray [JString (js ''a.b'')]),
             (js ''license'', JString (js ''MIT''))]) 4)]\<rparr>)"
proof -
  have h: "writeError quietWorld (packageJsonPath unchangedPack) = None"
    by (simp add: quietWorld_def)
  have manifest: "AList.update (js ''extensionPack'')
      (JArray (map JString (updatedExtensions unchangedPack)))
      (AList.update (js ''version'') (JString (updatedVersion unchangedPack))
         (packageJson unchangedPack)) =
      [(js ''name'', JString (js ''dev-essentials-pack'')),
       (js ''version'', JString (js ''1.0.1'')),
       (js ''extensionPack'', JArray [JString (js ''a.b'')]),
       (js ''license'', JString (js ''MIT''))]"
    by (simp add: unchangedPack_def js_def)
  have p: "packageJsonPath unchangedPack = js ''package.json''" "written quietWorld = []"
    by (simp_all add: unchangedPack_def quietWorld_def)
  show ?thesis
    using updatePackageJson_frame [OF h] h unfolding manifest p by simp
qed

lemma merged_changes_iff:
  assumes "updated = mergeExtensions current recommended"
  shows "sort current \<noteq> sort updated \<longleftrightarrow> set updated \<noteq> set current"
proof
  assume "sort current \<noteq> sort updated"
  show "set updated \<noteq> set current"
  proof
    assume eq: "set updated = set current"
    then have "set current = set recommended"
      using assms by (simp add: set_mergeExtensions)
    then have "updated = sort current"
      using assms by (simp add: mergeExtensions_def)
    then have "sort updated = sort current"
      by (simp add: sort_key_id_if_sorted)
    with \<open>sort current \<noteq> sort updated\<close> show False by simp
  qed
next
  assume "set updated \<noteq> set current"
  then show "sort current \<noteq> sort updated"
    by (metis set_sort)
qed

lemma hasChanges_result:
  "hasChangesOnExtensionList data =
     (sort (currentExtensions data) \<noteq> sort (updatedExtensions data),
      data\<lparr>currentExtensions := sort (currentExtensions data),
           updatedExtensions := sort (updatedExtensions data)\<rparr>)"
  by (simp add: hasChangesOnExtensionList_def Let_def inj_on_def)

lemma info_logged:
  assumes "logError w = None" "27 \<notin> set msg"
  shows "info msg None w =
     (Return (), w\<lparr>console := console w @ [logEntry Info msg None],
                   logFile := logFile w @ [js ''[INFO] '' @ msg @ [10, 10]]\<rparr>)"
proof -
  have plain: "removeANSI t = t" if "27 \<notin> set t" for t
    using removeANSI_no_ESC [OF that, of "[]"] by simp
  have e: "logEntry Info msg None =
      27 # 91 # 51 # 54 # 109 # js ''[INFO] '' @
      27 # 91 # 48 # 109 # (27 # 91 # 51 # 55 # 109 # msg @ 27 # 91 # 48 # 109 # [])"
    by (simp add: logEntry_def logLabel_def colorize_known)
  have "removeANSI (logEntry Info msg None) =
      removeANSI (js ''[INFO] '') @
      removeANSI (27 # 91 # 51 # 55 # 109 # msg @ 27 # 91 # 48 # 109 # [])"
    unfolding e by (rule removeANSI_coloured) simp
  also have "removeANSI (27 # 91 # 51 # 55 # 109 # msg @ 27 # 91 # 48 # 109 # []) =
      removeANSI msg @ removeANSI []"
    by (rule removeANSI_coloured) simp
  finally have "removeANSI (logEntry Info msg None) = js ''[INFO] '' @ msg"
    using plain [OF assms(2)] plain [of "js ''[INFO] ''"] by (simp add: js_def)
  then show ?thesis
    using assms(1) by (simp add: info_result logShown_def)
qed

lemma trim_empty_iff: "trim s = [] \<longleftrightarrow> (\<forall>c \<in> set s. isWhiteSpace c)"
proof -
  have "(\<forall>x \<in> set (dropWhile isWhiteSpace s). isWhiteSpace x) \<longleftrightarrow>
        (\<forall>c \<in> set s. isWhiteSpace c)"
  proof
    assume a: "\<forall>x \<in> set (dropWhile isWhiteSpace s). isWhiteSpace x"
    have "dropWhile isWhiteSpace s = []"
    proof (rule ccontr)
      assume n: "dropWhile isWhiteSpace s \<noteq> []"
      then have "\<not> isWhiteSpace (hd (dropWhile isWhiteSpace s))"
        by (rule hd_dropWhile)
      moreover from n have "hd (dropWhile isWhiteSpace s) \<in> set (dropWhile isWhiteSpace s)"
        by simp
      ultimately show False
        using a by blast
    qed
    then show "\<forall>c \<in> set s. isWhiteSpace c"
      by simp
  next
    assume "\<forall>c \<in> set s. isWhiteSpace c"
    then show "\<forall>x \<in> set (dropWhile isWhiteSpace s). isWhiteSpace x"
      by (meson set_dropWhileD)
  qed
  then show ?thesis
    by (simp add: trim_def)
qed

lemma letter_f_not_blank: "\<not> isWhiteSpace 102"
  by (simp add: isWhiteSpace_def)

lemma appendEntries_prefix: "appendEntries msg exts = Inr r \<Longrightarrow> prefix msg r"
proof (induction exts arbitrary: msg)
  case Nil
  then show ?case by simp
next
  case (Cons ext exts)
  then show ?case
    by (auto split: sum.splits dest: append_prefixD)
qed

text \<open>The messages of the stages before the manifest update are empty or not blank.\<close>

lemma report_empty_or_not_blank:
  assumes "getCommitMessageByExtensionListChanges current updated = Inr m"
  shows "m = [] \<or> trim m \<noteq> []"
proof (cases "m = []")
  case True
  then show ?thesis by simp
next
  case False
  with assms have "prefix reportHeader m"
    by (auto simp: getCommitMessageByExtensionListChanges_def Let_def
        split: if_splits sum.splits dest: appendEntries_prefix)
  then have "102 \<in> set m"
    by (auto simp: prefix_def reportHeader_def js_def)
  then show ?thesis
    using letter_f_not_blank by (auto simp: trim_empty_iff)
qed

lemma enrich_empty_or_not_blank:
  assumes "gitError w (GitAdd (extensionFiles data)) = None"
    and "gitError w GitDiffCached = None"
    and "gitError w GitRestoreStaged = None"
    and "addAdditionalInfoToMessage data w = (Return data', w')"
    and "message data = [] \<or> trim (message data) \<noteq> []"
  shows "message data' = [] \<or> trim (message data') \<noteq> []"
proof -
  have "102 \<in> set (js ''feat(extension): Updates to v{{version}}'')"
    by (simp add: js_def)
  then have "\<not> (\<forall>c \<in> set (js ''feat(extension): Updates to v{{version}}''). isWhiteSpace c)"
    using letter_f_not_blank by blast
  with assms(4,5) show ?thesis
    unfolding enrich_result [OF assms(1-3)]
    by (auto simp: trim_empty_iff split: if_splits)
qed

text \<open>
  C5. For data whose updated list is the merged list, whose message is empty or not
  blank (as the messages of the earlier stages are), and a world in which the write
  and the log succeed: the manifest with the new version and the merged list is
  written exactly when the merged list differs from the current one as a set or the
  message is not empty; otherwise nothing is written and the notice is logged.
\<close>

theorem updateExtensionPack_writes_iff:
  assumes merged: "updatedExtensions data = mergeExtensions (currentExtensions data) recommended"
    and msg: "message data = [] \<or> trim (message data) \<noteq> []"
    and canWrite: "writeError w (packageJsonPath data) = None"
    and log: "logError w = None"
  shows "(set (updatedExtensions data) \<noteq> set (currentExtensions data) \<or> message data \<noteq> [] \<longrightarrow>
            written (snd (updateExtensionPack data w)) =
              written w @
              [(packageJsonPath data,
                JSON_stringify (JObject
                  (AList.update (js ''extensionPack'')
                     (JArray (map JString (updatedExtensions data)))
                     (AList.update (js ''version'') (JString (updatedVersion data))
                        (packageJson data)))) 4)]) \<and>
         (\<not> (set (updatedExtensions data) \<noteq> set (currentExtensions data) \<or> message data \<noteq> []) \<longrightarrow>
            written (snd (updateExtensionPack data w)) = written w \<and>
            logFile (snd (updateExtensionPack data w)) =
              logFile w @ [js ''[INFO] No changes needed in `package.json` file.'' @ [10, 10]])"
proof -
  let ?data' = "data\<lparr>currentExtensions := sort (currentExtensions data),
                      updatedExtensions := sort (updatedExtensions data)\<rparr>"
  have isSorted: "sort (updatedExtensions data) = updatedExtensions data"
    unfolding merged by (simp add: mergeExtensions_def sort_key_id_if_sorted)
  have changes: "sort (currentExtensions data) \<noteq> sort (updatedExtensions data) \<longleftrightarrow>
      set (updatedExtensions data) \<noteq> set (currentExtensions data)"
    using merged by (rule merged_changes_iff)
  have blank: "trim (message data) = [] \<longleftrightarrow> message data = []"
    using msg by (auto simp: trim_def)
  have notice: "27 \<notin> set (js ''No changes needed in `package.json` file.'')"
    by (simp add: js_def)
  show ?thesis
  proof (cases "set (updatedExtensions data) \<noteq> set (currentExtensions data) \<or> message data \<noteq> []")
    case True
    then have "updateExtensionPack data w = updatePackageJson ?data' w"
      using canWrite changes blank
      by (auto simp add: updateExtensionPack_def hasChanges_result tryCatch_def
          updatePackageJson_result)
    with True show ?thesis
      using canWrite by (simp add: updatePackageJson_result isSorted)
  next
    case False
    then have "updateExtensionPack data w =
        andThen (info (js ''No changes needed in `package.json` file.'') None) (\<lambda>_. ret ?data') w"
      using changes blank log
      by (simp add: updateExtensionPack_def hasChanges_result tryCatch_def andThen_def
          info_logged [OF log notice] ret_def)
    moreover have "js ''[INFO] '' @ js ''No changes needed in `package.json` file.'' =
        js ''[INFO] No changes needed in `package.json` file.''"
      by (simp add: js_def)
    ultimately show ?thesis
      using False by (simp add: andThen_def info_logged [OF log notice] ret_def)
  qed
qed

theorem updateExtensionPack_writes_iff_witness:
  "updatedExtensions (unchangedPack\<lparr>currentExtensions := [js ''a.b'', js ''c.d''],
       updatedExtensions := [js ''c.d'', js ''e.f''], message := js ''feat: x''\<rparr>) =
     mergeExtensions [js ''a.b'', js ''c.d''] [js ''e.f'', js ''c.d''] \<and>
   written (snd (updateExtensionPack
     (unchangedPack\<lparr>currentExtensions := [js ''a.b'', js ''c.d''],
       updatedExtensions := [js ''c.d'', js ''e.f''], message := js ''feat: x''\<rparr>) quietWorld)) =
     [(js ''package.json'',
       JSON_stringify (JObject
         [(js ''name'', JString (js ''dev-essentials-pack'')),
          (js ''version'', JString (js ''1.0.1'')),
          (js ''extensionPack'', JArray [JString (js ''c.d''), JString (js ''e.f'')]),
          (js ''license'', JString (js ''MIT''))]) 4)] \<and>
   updatedExtensions unchangedPack = mergeExtensions [js ''a.b''] [js ''a.b''] \<and>
   written (snd (updateExtensionPack unchangedPack quietWorld)) = [] \<and>
   logFile (snd (updateExtensionPack unchangedPack quietWorld)) =
     [js ''[INFO] No changes needed in `package.json` file.'' @ [10, 10]]"
proof -
  let ?d = "unchangedPack\<lparr>currentExtensions := [js ''a.b'', js ''c.d''],
       updatedExtensions := [js ''c.d'', js ''e.f''], message := js ''feat: x''\<rparr>"
  have m1: "updatedExtensions ?d = mergeExtensions (currentExtensions ?d) [js ''e.f'', js ''c.d'']"
    by (simp add: mergeExtensions_def js_def)
  have b1: "message ?d = [] \<or> trim (message ?d) \<noteq> []"
    by (simp add: js_def trim_def isWhiteSpace_def)
  have w1: "writeError quietWorld (packageJsonPath ?d) = None"
    by (simp add: quietWorld_def)
  have l: "logError quietWorld = None"
    by (simp add: quietWorld_def)
  have "js ''e.f'' \<in> set (updatedExtensions ?d)" "js ''e.f'' \<notin> set (currentExtensions ?d)"
    by (simp_all add: js_def)
  then have c1: "set (updatedExtensions ?d) \<noteq> set (currentExtensions ?d)"
    by blast
  have m2: "updatedExtensions unchangedPack =
      mergeExtensions (currentExtensions unchangedPack) [js ''a.b'']"
    by (simp add: mergeExtensions_def unchangedPack_def)
  have b2: "message unchangedPack = [] \<or> trim (message unchangedPack) \<noteq> []"
    by (simp add: unchangedPack_def)
  have w2: "writeError quietWorld (packageJsonPath unchangedPack) = None"
    by (simp add: quietWorld_def)
  have c2: "\<not> (set (updatedExtensions unchangedPack) \<noteq> set (currentExtensions unchangedPack) \<or>
      message unchangedPack \<noteq> [])"
    by (simp add: unchangedPack_def)
  have manifest: "AList.update (js ''extensionPack'') (JArray (map JString (updatedExtensions ?d)))
      (AList.update (js ''version'') (JString (updatedVersion ?d)) (packageJson ?d)) =
      [(js ''name'', JString (js ''dev-essentials-pack'')),
       (js ''version'', JString (js ''1.0.1'')),
       (js ''extensionPack'', JArray [JString (js ''c.d''), JString (js ''e.f'')]),
       (js ''license'', JString (js ''MIT''))]"
    by (simp add: unchangedPack_def js_def)
  have "written (snd (updateExtensionPack ?d quietWorld)) =
      written quietWorld @ [(packageJsonPath ?d, JSON_stringify (JObject
         [(js ''name'', JString (js ''dev-essentials-pack'')),
          (js ''version'', JString (js ''1.0.1'')),
          (js ''extensionPack'', JArray [JString (js ''c.d''), JString (js ''e.f'')]),
          (js ''license'', JString (js ''MIT''))]) 4)]"
    using updateExtensionPack_writes_iff [OF m1 b1 w1 l] c1 unfolding manifest by blast
  moreover have "written (snd (updateExtensionPack unchangedPack quietWorld)) = written quietWorld \<and>
      logFile (snd (updateExtensionPack unchangedPack quietWorld)) =
      logFile quietWorld @ [js ''[INFO] No changes needed in `package.json` file.'' @ [10, 10]]"
    using updateExtensionPack_writes_iff [OF m2 b2 w2 l] c2 by blast
  ultimately show ?thesis
    using m1 m2 by (simp add: quietWorld_def unchangedPack_def)
qed

end
